theory Spec2Isabelle
  imports
    Complex_Main
    "HOL-Library.Sublist"
    "HOL-Library.Multiset"
    "HOL-Library.Char_ord"
    "HOL-Library.List_Lexorder"
    "HOL-Library.Product_Lexorder"
begin

section \<open>Python floats\<close>

text \<open>
  A Python \<open>float\<close> is an IEEE 754 binary64 number: a finite value, an infinity or NaN.
  A finite float is given by its exact value, a real number; the sign of a zero is not
  kept (\<open>-0.0 == 0.0\<close> in Python). The arithmetic rounds the exact result to the nearest
  float, a tie going to the neighbour whose last bit is even, and overflows to an
  infinity.
\<close>

datatype pyfloat = Fin real | PInf | NInf | NaN

definition round_half_even :: "real \<Rightarrow> int" where
  "round_half_even y =
     (let f = \<lfloor>y\<rfloor>; d = y - of_int f
      in if d < 1 / 2 then f else if 1 / 2 < d then f + 1 else if even f then f else f + 1)"

text \<open>
  The exponent of the binade of \<open>x\<close> (at least that of the smallest normal number), the
  spacing of the floats there, and \<open>x\<close> rounded to a multiple of that spacing.
\<close>

definition expo :: "real \<Rightarrow> int" where
  "expo x = max \<lfloor>log 2 \<bar>x\<bar>\<rfloor> (- 1022)"

definition quantum :: "real \<Rightarrow> real" where
  "quantum x = 2 powr (of_int (expo x) - 52)"

definition rne :: "real \<Rightarrow> real" where
  "rne x = (if x = 0 then 0 else of_int (round_half_even (x / quantum x)) * quantum x)"

text \<open>A result of magnitude \<open>2 ^ 1024\<close> or more is beyond the largest float.\<close>

definition huge :: real where
  "huge = 2 ^ 1024"

definition rnd :: "real \<Rightarrow> pyfloat" where
  "rnd x = (let r = rne x in if huge \<le> r then PInf else if r \<le> - huge then NInf else Fin r)"

text \<open>A float literal of the source, such as \<^verbatim>\<open>0.15\<close>, is the float nearest to it.\<close>

definition lit :: "real \<Rightarrow> pyfloat" where
  "lit x = rnd x"

text \<open>The sign of a float that is not NaN.\<close>

fun negative :: "pyfloat \<Rightarrow> bool" where
  "negative (Fin a) = (a < 0)"
| "negative NInf = True"
| "negative x = False"

definition signed_inf :: "bool \<Rightarrow> pyfloat" where
  "signed_inf neg = (if neg then NInf else PInf)"

text \<open>\<^verbatim>\<open>x + y\<close>, \<^verbatim>\<open>x * y\<close> and \<^verbatim>\<open>x / y\<close> (the last for a divisor other than zero).\<close>

fun fadd :: "pyfloat \<Rightarrow> pyfloat \<Rightarrow> pyfloat" where
  "fadd (Fin a) (Fin b) = rnd (a + b)"
| "fadd NaN y = NaN"
| "fadd x NaN = NaN"
| "fadd PInf NInf = NaN"
| "fadd NInf PInf = NaN"
| "fadd PInf y = PInf"
| "fadd x PInf = PInf"
| "fadd NInf y = NInf"
| "fadd x NInf = NInf"

fun fmul :: "pyfloat \<Rightarrow> pyfloat \<Rightarrow> pyfloat" where
  "fmul (Fin a) (Fin b) = rnd (a * b)"
| "fmul NaN y = NaN"
| "fmul x NaN = NaN"
| "fmul x y = (if x = Fin 0 \<or> y = Fin 0 then NaN else signed_inf (negative x \<noteq> negative y))"

fun fdiv :: "pyfloat \<Rightarrow> pyfloat \<Rightarrow> pyfloat" where
  "fdiv (Fin a) (Fin b) = rnd (a / b)"
| "fdiv NaN y = NaN"
| "fdiv x NaN = NaN"
| "fdiv (Fin a) y = Fin 0"
| "fdiv x (Fin b) = signed_inf (negative x \<noteq> (b < 0))"
| "fdiv x y = NaN"

text \<open>\<^verbatim>\<open>x < y\<close> and \<^verbatim>\<open>x <= y\<close>: false when either side is NaN.\<close>

fun flt :: "pyfloat \<Rightarrow> pyfloat \<Rightarrow> bool" where
  "flt (Fin a) (Fin b) = (a < b)"
| "flt NaN y = False"
| "flt x NaN = False"
| "flt x NInf = False"
| "flt NInf y = True"
| "flt PInf y = False"
| "flt x PInf = True"

fun fle :: "pyfloat \<Rightarrow> pyfloat \<Rightarrow> bool" where
  "fle (Fin a) (Fin b) = (a \<le> b)"
| "fle NaN y = False"
| "fle x NaN = False"
| "fle NInf y = True"
| "fle x PInf = True"
| "fle x y = False"

fun fabs :: "pyfloat \<Rightarrow> pyfloat" where
  "fabs (Fin a) = Fin \<bar>a\<bar>"
| "fabs NaN = NaN"
| "fabs x = PInf"

section \<open>Python values, dictionaries and builtins\<close>

text \<open>
  The modules pass loosely typed dictionaries around. A value in a dictionary is
  \<open>None\<close>, a number, a string or a nested dictionary. A number is an \<open>int\<close> (a \<open>bool\<close>
  is the integer 1 or 0) or a finite \<open>float\<close>, given by its exact value; a dictionary
  as it is given holds no infinity and no NaN, which arise from the arithmetic or from
  \<^verbatim>\<open>float\<close> of a string. A dictionary is a map from keys to values.
\<close>

datatype pyval = VNone | VNum real | VStr string | VDict "string \<Rightarrow> pyval option"

type_synonym pydict = "string \<Rightarrow> pyval option"

datatype error =
  TypeError | ValueError | AttributeError | KeyError | IndexError | OverflowError
  | ZeroDivisionError | LibraryError

text \<open>Sequencing of computations that may raise.\<close>

definition bind :: "error + 'a \<Rightarrow> ('a \<Rightarrow> error + 'b) \<Rightarrow> error + 'b" where
  "bind r f = (case r of Inl e \<Rightarrow> Inl e | Inr v \<Rightarrow> f v)"

text \<open>
  Two things Python does are parameters here. \<^verbatim>\<open>float(s)\<close> of a string parses it: the
  parser is \<open>float_of_str\<close>. Sorting a list whose keys include NaN leaves an order that
  depends on the comparisons the sorting routine happens to make: \<open>sort_unordered\<close>
  gives, for the list of keys, the positions of the input in the order of the output.
\<close>

record builtins =
  float_of_str :: "string \<Rightarrow> error + pyfloat"
  sort_unordered :: "pyfloat list \<Rightarrow> nat list"

text \<open>\<^verbatim>\<open>d.get(k, default)\<close>\<close>

definition py_get :: "pydict \<Rightarrow> string \<Rightarrow> pyval \<Rightarrow> pyval" where
  "py_get d k dflt = (case d k of None \<Rightarrow> dflt | Some v \<Rightarrow> v)"

text \<open>
  What a dictionary holds under a key: a number, or nothing at all. \<open>feat\<close> is the
  exact value of that number, \<open>0\<close> when the key is absent.
\<close>

definition numeric_or_absent :: "pydict \<Rightarrow> string \<Rightarrow> bool" where
  "numeric_or_absent d k = (case d k of None \<Rightarrow> True | Some (VNum x) \<Rightarrow> True | Some _ \<Rightarrow> False)"

definition feat :: "pydict \<Rightarrow> string \<Rightarrow> real" where
  "feat d k = (case d k of Some (VNum x) \<Rightarrow> x | _ \<Rightarrow> 0)"

text \<open>
  The conversion of a number to a float: the nearest float, and OverflowError for an
  integer beyond the range of the floats.
\<close>

definition float_of_num :: "real \<Rightarrow> error + pyfloat" where
  "float_of_num x = (case rnd x of Fin r \<Rightarrow> Inr (Fin r) | _ \<Rightarrow> Inl OverflowError)"

text \<open>
  \<^verbatim>\<open>float(v)\<close>: the conversion of a number, the parse of a string, and TypeError for
  \<open>None\<close> and for a dictionary.
\<close>

fun py_float :: "builtins \<Rightarrow> pyval \<Rightarrow> error + pyfloat" where
  "py_float py (VNum x) = float_of_num x"
| "py_float py VNone = Inl TypeError"
| "py_float py (VStr s) = float_of_str py s"
| "py_float py (VDict m) = Inl TypeError"

text \<open>Truth value of an object, as used by \<^verbatim>\<open>x or y\<close>.\<close>

fun truthy :: "pyval \<Rightarrow> bool" where
  "truthy VNone = False"
| "truthy (VNum x) = (x \<noteq> 0)"
| "truthy (VStr s) = (s \<noteq> [])"
| "truthy (VDict m) = (m \<noteq> Map.empty)"

definition py_or :: "pyval \<Rightarrow> pyval \<Rightarrow> pyval" where
  "py_or a b = (if truthy a then a else b)"

text \<open>\<^verbatim>\<open>x / y\<close> on floats raises ZeroDivisionError for a zero divisor.\<close>

definition py_truediv :: "pyfloat \<Rightarrow> pyfloat \<Rightarrow> error + pyfloat" where
  "py_truediv x y = (if y = Fin 0 then Inl ZeroDivisionError else Inr (fdiv x y))"

text \<open>\<^verbatim>\<open>min(a, b)\<close> keeps \<open>a\<close> unless \<open>b < a\<close>.\<close>

definition py_min :: "pyfloat \<Rightarrow> pyfloat \<Rightarrow> pyfloat" where
  "py_min a b = (if flt b a then b else a)"

text \<open>
  \<^verbatim>\<open>round(x, n)\<close> for \<open>n \<ge> 0\<close>: the exact value of the float is rounded to \<open>n\<close> decimals, a
  tie going to the even neighbour, and the result is the float nearest to that decimal.
  An infinity and NaN are returned as they are.
\<close>

fun py_round :: "pyfloat \<Rightarrow> nat \<Rightarrow> pyfloat" where
  "py_round (Fin x) n = rnd (of_int (round_half_even (x * 10 ^ n)) / 10 ^ n)"
| "py_round x n = x"

text \<open>
  \<^verbatim>\<open>x % y\<close> on floats: the exact remainder of the division truncated towards zero,
  to which \<open>y\<close> is added (a float addition) when it is not zero and its sign differs from
  that of \<open>y\<close>; ZeroDivisionError for a zero divisor.
\<close>

definition toward_zero :: "real \<Rightarrow> int" where
  "toward_zero r = (if 0 \<le> r then \<lfloor>r\<rfloor> else \<lceil>r\<rceil>)"

fun fmod :: "pyfloat \<Rightarrow> pyfloat \<Rightarrow> pyfloat" where
  "fmod (Fin x) (Fin m) =
     (let r = x - m * of_int (toward_zero (x / m))
      in if r \<noteq> 0 \<and> (m < 0) \<noteq> (r < 0) then rnd (r + m) else Fin r)"
| "fmod NaN y = NaN"
| "fmod x NaN = NaN"
| "fmod (Fin x) PInf = (if x < 0 then PInf else Fin x)"
| "fmod (Fin x) NInf = (if 0 < x then NInf else Fin x)"
| "fmod x y = NaN"

definition py_mod :: "pyfloat \<Rightarrow> pyfloat \<Rightarrow> error + pyfloat" where
  "py_mod x y = (if y = Fin 0 then Inl ZeroDivisionError else Inr (fmod x y))"

section \<open>Rounding to the nearest float\<close>

lemma round_half_even_bounds: "\<lfloor>y\<rfloor> \<le> round_half_even y \<and> round_half_even y \<le> \<lceil>y\<rceil>"
  by (auto simp: round_half_even_def Let_def) linarith+

lemma round_half_even_of_int [simp]: "round_half_even (of_int n) = n"
  by (simp add: round_half_even_def)

lemma round_half_even_mono: "a \<le> b \<Longrightarrow> round_half_even a \<le> round_half_even b"
proof -
  assume ab: "a \<le> b"
  have fl: "\<lfloor>a\<rfloor> \<le> \<lfloor>b\<rfloor>" using ab by (rule floor_mono)
  show ?thesis
  proof (cases "\<lfloor>a\<rfloor> = \<lfloor>b\<rfloor>")
    case True
    then show ?thesis using ab
      by (auto simp: round_half_even_def Let_def)
  next
    case False
    then have "\<lfloor>a\<rfloor> + 1 \<le> \<lfloor>b\<rfloor>" using fl by linarith
    moreover have "round_half_even a \<le> \<lfloor>a\<rfloor> + 1"
      by (auto simp: round_half_even_def Let_def)
    moreover have "\<lfloor>b\<rfloor> \<le> round_half_even b"
      using round_half_even_bounds by blast
    ultimately show ?thesis by linarith
  qed
qed

lemma round_half_even_neg: "round_half_even (- y) = - round_half_even y"
proof (cases "y \<in> \<int>")
  case True
  then obtain n where "y = of_int n" by (auto elim: Ints_cases)
  then show ?thesis by (metis of_int_minus round_half_even_of_int)
next
  case False
  then have ne: "of_int \<lfloor>y\<rfloor> \<noteq> y" by (metis Ints_of_int)
  then have lt: "of_int \<lfloor>y\<rfloor> < y" using of_int_floor_le[of y] by linarith
  have f: "\<lfloor>- y\<rfloor> = - \<lfloor>y\<rfloor> - 1"
    by (rule floor_unique) (use lt in \<open>simp_all\<close>, linarith)
  have d: "y - of_int \<lfloor>y\<rfloor> \<noteq> 0" using ne by simp
  show ?thesis
    unfolding round_half_even_def Let_def f
    by (auto simp: algebra_simps)
qed


lemma expo_upper: "x \<noteq> 0 \<Longrightarrow> \<bar>x\<bar> < 2 powr (of_int (expo x) + 1)"
proof -
  assume x: "x \<noteq> 0"
  have "log 2 \<bar>x\<bar> < of_int \<lfloor>log 2 \<bar>x\<bar>\<rfloor> + 1" by linarith
  also have "\<dots> \<le> of_int (expo x) + 1" by (simp add: expo_def)
  finally have "log 2 \<bar>x\<bar> < of_int (expo x) + 1" .
  then have "2 powr (log 2 \<bar>x\<bar>) < 2 powr (of_int (expo x) + 1)" by simp
  then show ?thesis using x by simp
qed

lemma expo_lower: "x \<noteq> 0 \<Longrightarrow> - 1022 < expo x \<Longrightarrow> 2 powr (of_int (expo x)) \<le> \<bar>x\<bar>"
proof -
  assume x: "x \<noteq> 0" and e: "- 1022 < expo x"
  then have "expo x = \<lfloor>log 2 \<bar>x\<bar>\<rfloor>" by (simp add: expo_def max_def split: if_splits)
  then have "of_int (expo x) \<le> log 2 \<bar>x\<bar>" by simp
  then have "2 powr (of_int (expo x)) \<le> 2 powr (log 2 \<bar>x\<bar>)" by simp
  then show ?thesis using x by simp
qed

lemma expo_eq:
  assumes "2 powr (of_int e) \<le> \<bar>x\<bar>" "\<bar>x\<bar> < 2 powr (of_int e + 1)" "- 1022 \<le> e"
  shows "expo x = e"
proof -
  have x: "0 < \<bar>x\<bar>" using assms(1) by (smt (verit) powr_gt_zero)
  have "of_int e \<le> log 2 \<bar>x\<bar>" using assms(1) x by (simp add: le_log_iff)
  moreover have "log 2 \<bar>x\<bar> < of_int e + 1" using assms(2) x by (simp add: log_less_iff)
  ultimately have "\<lfloor>log 2 \<bar>x\<bar>\<rfloor> = e" by (intro floor_unique) simp_all
  then show ?thesis using assms(3) by (simp add: expo_def)
qed

lemma expo_subnormal:
  assumes "x \<noteq> 0" "\<bar>x\<bar> < 2 powr (- 1022)"
  shows "expo x = - 1022"
proof -
  have "log 2 \<bar>x\<bar> < - 1022" using assms by (simp add: log_less_iff)
  then have "\<lfloor>log 2 \<bar>x\<bar>\<rfloor> < - 1022" by linarith
  then show ?thesis by (simp add: expo_def)
qed

lemma expo_mono: "0 < x \<Longrightarrow> x \<le> y \<Longrightarrow> expo x \<le> expo y"
proof -
  assume "0 < x" "x \<le> y"
  then have "log 2 \<bar>x\<bar> \<le> log 2 \<bar>y\<bar>" by simp
  then have "\<lfloor>log 2 \<bar>x\<bar>\<rfloor> \<le> \<lfloor>log 2 \<bar>y\<bar>\<rfloor>" by (rule floor_mono)
  then show ?thesis by (simp add: expo_def)
qed

lemma expo_neg [simp]: "expo (- x) = expo x"
  by (simp add: expo_def)

lemma quantum_neg [simp]: "quantum (- x) = quantum x"
  by (simp add: quantum_def)

lemma quantum_pos [simp]: "0 < quantum x"
  by (simp add: quantum_def)

lemma quantum_nonneg [simp]: "0 \<le> quantum x"
  by (simp add: quantum_def)

lemma quantum_53: "2 powr 53 * quantum x = 2 powr (of_int (expo x) + 1)"
proof -
  have "of_int (expo x) + 1 = 53 + (of_int (expo x) - 52 :: real)" by simp
  then have "2 powr (of_int (expo x) + 1) = (2::real) powr (53 + (of_int (expo x) - 52))"
    by (simp only:)
  also have "\<dots> = 2 powr 53 * 2 powr (of_int (expo x) - 52)" by (rule powr_add)
  finally show ?thesis by (simp only: quantum_def)
qed

lemma quantum_52: "2 powr 52 * quantum x = 2 powr (of_int (expo x))"
proof -
  have "2 powr (of_int (expo x)) = (2::real) powr (52 + (of_int (expo x) - 52))" by simp
  also have "\<dots> = 2 powr 52 * 2 powr (of_int (expo x) - 52)" by (rule powr_add)
  finally show ?thesis by (simp only: quantum_def)
qed

lemma rne_neg: "rne (- x) = - rne x"
  by (simp add: rne_def round_half_even_neg)

lemma rne_nonneg: "0 \<le> x \<Longrightarrow> 0 \<le> rne x"
proof -
  assume "0 \<le> x"
  then have "0 \<le> x / quantum x" using quantum_pos[of x] by (intro divide_nonneg_pos)
  then have "0 \<le> \<lfloor>x / quantum x\<rfloor>" by simp
  then have "0 \<le> round_half_even (x / quantum x)"
    using round_half_even_bounds[of "x / quantum x"] by linarith
  then have "0 \<le> of_int (round_half_even (x / quantum x)) * quantum x"
    by (intro mult_nonneg_nonneg) simp_all
  then show ?thesis by (simp add: rne_def)
qed

lemma rne_pos_upper:
  assumes "0 < x"
  shows "rne x \<le> 2 powr (of_int (expo x) + 1)"
proof -
  have "x < 2 powr (of_int (expo x) + 1)" using expo_upper[of x] assms by simp
  also have "\<dots> = 2 powr 53 * quantum x"
    by (simp only: quantum_53)
  finally have "x / quantum x < 2 powr 53" using quantum_pos[of x] by (simp only: pos_divide_less_eq)
  then have "x / quantum x \<le> of_int (2 ^ 53)" by simp
  then have "\<lceil>x / quantum x\<rceil> \<le> 2 ^ 53" by (simp only: ceiling_le_iff)
  then have "round_half_even (x / quantum x) \<le> 2 ^ 53"
    using round_half_even_bounds[of "x / quantum x"] by linarith
  then have "of_int (round_half_even (x / quantum x)) \<le> (2 powr 53 :: real)"
    by (metis of_int_le_iff of_int_numeral of_int_power powr_numeral  numeral_powr_numeral_real)
  then have "of_int (round_half_even (x / quantum x)) * quantum x \<le> 2 powr 53 * quantum x"
    by (simp add: mult_right_mono)
  also have "\<dots> = 2 powr (of_int (expo x) + 1)"
    by (simp only: quantum_53)
  finally have "of_int (round_half_even (x / quantum x)) * quantum x
      \<le> 2 powr (of_int (expo x) + 1)" .
  moreover have "rne x = of_int (round_half_even (x / quantum x)) * quantum x"
    using assms by (simp add: rne_def)
  ultimately show ?thesis by (simp only:)
qed

lemma rne_pos_lower:
  assumes "0 < x" "- 1022 < expo x"
  shows "2 powr (of_int (expo x)) \<le> rne x"
proof -
  have "2 powr 52 * quantum x = 2 powr (of_int (expo x))"
    by (rule quantum_52)
  also have "\<dots> \<le> x" using expo_lower[of x] assms by simp
  finally have "2 powr 52 \<le> x / quantum x" using quantum_pos[of x] by (simp only: pos_le_divide_eq)
  then have "of_int (2 ^ 52) \<le> x / quantum x" by simp
  then have "2 ^ 52 \<le> \<lfloor>x / quantum x\<rfloor>" by (simp only: le_floor_iff)
  then have "2 ^ 52 \<le> round_half_even (x / quantum x)"
    using round_half_even_bounds[of "x / quantum x"] by linarith
  then have "(2 powr 52 :: real) \<le> of_int (round_half_even (x / quantum x))"
    by (metis of_int_le_iff of_int_numeral of_int_power powr_numeral numeral_powr_numeral_real)
  then have "2 powr 52 * quantum x \<le> of_int (round_half_even (x / quantum x)) * quantum x"
    by (simp add: mult_right_mono)
  moreover have "2 powr 52 * quantum x = 2 powr (of_int (expo x))"
    by (rule quantum_52)
  moreover have "rne x = of_int (round_half_even (x / quantum x)) * quantum x"
    using assms by (simp add: rne_def)
  ultimately show ?thesis by (simp only:)
qed

lemma rne_mono_pos:
  assumes "0 < x" "x \<le> y"
  shows "rne x \<le> rne y"
proof (cases "expo x = expo y")
  case True
  then have q: "quantum x = quantum y" by (simp add: quantum_def)
  have "x / quantum y \<le> y / quantum y"
    using assms quantum_pos[of y] by (intro divide_right_mono) simp_all
  then have "round_half_even (x / quantum y) \<le> round_half_even (y / quantum y)"
    by (rule round_half_even_mono)
  then have "of_int (round_half_even (x / quantum y)) * quantum y
      \<le> of_int (round_half_even (y / quantum y)) * quantum y"
    by (simp add: mult_right_mono)
  then show ?thesis using assms by (simp add: rne_def q)
next
  case False
  then have lt: "expo x < expo y" using expo_mono[OF assms] by linarith
  have y: "0 < y" using assms by linarith
  have "- 1022 \<le> expo x" by (simp add: expo_def)
  then have "- 1022 < expo y" using lt by linarith
  then have "2 powr (of_int (expo y)) \<le> rne y" using rne_pos_lower[OF y] by simp
  moreover have "rne x \<le> 2 powr (of_int (expo x) + 1)" using rne_pos_upper[OF assms(1)] .
  moreover have "(2::real) powr (of_int (expo x) + 1) \<le> 2 powr (of_int (expo y))"
    using lt by simp
  ultimately show ?thesis by linarith
qed

lemma rne_zero [simp]: "rne 0 = 0"
  by (simp add: rne_def)

lemma rne_mono: "x \<le> y \<Longrightarrow> rne x \<le> rne y"
proof -
  assume xy: "x \<le> y"
  consider "0 < x" | "x \<le> 0" "0 \<le> y" | "y < 0" by linarith
  then show ?thesis
  proof cases
    case 1
    then show ?thesis using xy by (rule rne_mono_pos)
  next
    case 2
    have "rne x \<le> 0" using rne_nonneg[of "- x"] 2(1) by (simp add: rne_neg)
    moreover have "0 \<le> rne y" using 2(2) by (rule rne_nonneg)
    ultimately show ?thesis by linarith
  next
    case 3
    then have "rne (- y) \<le> rne (- x)" using xy by (intro rne_mono_pos) simp_all
    then show ?thesis by (simp add: rne_neg)
  qed
qed


lemma rne_eval:
  assumes "2 powr (of_int e) \<le> \<bar>x\<bar>" "\<bar>x\<bar> < 2 powr (of_int e + 1)" "- 1022 \<le> e"
  shows "rne x = of_int (round_half_even (x / 2 powr (of_int e - 52))) * 2 powr (of_int e - 52)"
proof -
  have "expo x = e" using assms by (rule expo_eq)
  moreover have "x \<noteq> 0" using assms(1) by (smt (verit) powr_gt_zero)
  ultimately show ?thesis by (simp add: rne_def quantum_def)
qed

lemma rne_eval_small:
  fixes k :: nat
  assumes "1 / 2 ^ k \<le> \<bar>x\<bar>" "\<bar>x\<bar> < 2 / 2 ^ k" "k \<le> 1022"
  shows "rne x = of_int (round_half_even (x * 2 ^ (k + 52))) / 2 ^ (k + 52)"
proof -
  have p1: "(2::real) powr (of_int (- int k)) = 1 / 2 ^ k"
    by (simp add: powr_minus powr_realpow divide_inverse)
  have "(2::real) powr (of_int (- int k) + 1) = 2 powr (of_int (- int k)) * 2 powr 1"
    by (rule powr_add)
  then have p2: "(2::real) powr (of_int (- int k) + 1) = 2 / 2 ^ k"
    by (simp only: p1) simp
  have p3: "(2::real) powr (of_int (- int k) - 52) = 1 / 2 ^ (k + 52)"
  proof -
    have "of_int (- int k) - 52 = - real (k + 52)" by simp
    then have "(2::real) powr (of_int (- int k) - 52) = 2 powr (- real (k + 52))" by (simp only:)
    also have "\<dots> = 1 / 2 ^ (k + 52)"
      by (simp only: powr_minus powr_realpow[OF zero_less_numeral] divide_inverse mult_1)
    finally show ?thesis .
  qed
  have a1: "2 powr (of_int (- int k)) \<le> \<bar>x\<bar>" using assms(1) by (simp only: p1)
  have a2: "\<bar>x\<bar> < 2 powr (of_int (- int k) + 1)" using assms(2) by (simp only: p2)
  have a3: "- 1022 \<le> - int k" using assms(3) by simp
  have "rne x = of_int (round_half_even (x / 2 powr (of_int (- int k) - 52)))
      * 2 powr (of_int (- int k) - 52)"
    using a1 a2 a3 by (rule rne_eval)
  then show ?thesis by (simp only: p3) simp
qed

lemma rne_eval_large:
  fixes k :: nat
  assumes "2 ^ k \<le> \<bar>x\<bar>" "\<bar>x\<bar> < 2 * 2 ^ k" "k \<le> 52"
  shows "rne x = of_int (round_half_even (x * 2 ^ (52 - k))) / 2 ^ (52 - k)"
proof -
  have p1: "(2::real) powr (of_int (int k)) = 2 ^ k"
    by (simp add: powr_realpow)
  have p2: "(2::real) powr (of_int (int k) + 1) = 2 * 2 ^ k"
    by (simp add: powr_add powr_realpow)
  have p3: "(2::real) powr (of_int (int k) - 52) = 1 / 2 ^ (52 - k)"
  proof -
    have "of_int (int k) - 52 = - real (52 - k)" using assms(3) by simp
    then have "(2::real) powr (of_int (int k) - 52) = 2 powr (- real (52 - k))" by (simp only:)
    also have "\<dots> = 1 / 2 ^ (52 - k)"
      by (simp only: powr_minus powr_realpow[OF zero_less_numeral] divide_inverse mult_1)
    finally show ?thesis .
  qed
  have a1: "2 powr (of_int (int k)) \<le> \<bar>x\<bar>" using assms(1) by (simp only: p1)
  have a2: "\<bar>x\<bar> < 2 powr (of_int (int k) + 1)" using assms(2) by (simp only: p2)
  have a3: "- 1022 \<le> int k" using assms(3) by simp
  have "rne x = of_int (round_half_even (x / 2 powr (of_int (int k) - 52)))
      * 2 powr (of_int (int k) - 52)"
    using a1 a2 a3 by (rule rne_eval)
  then show ?thesis by (simp only: p3) simp
qed

lemma rne_eval_huge:
  fixes k :: nat
  assumes "2 ^ k \<le> \<bar>x\<bar>" "\<bar>x\<bar> < 2 * 2 ^ k" "52 \<le> k"
  shows "rne x = of_int (round_half_even (x / 2 ^ (k - 52))) * 2 ^ (k - 52)"
proof -
  have p1: "(2::real) powr (of_int (int k)) = 2 ^ k"
    by (simp add: powr_realpow)
  have p2: "(2::real) powr (of_int (int k) + 1) = 2 * 2 ^ k"
    by (simp add: powr_add powr_realpow)
  have p3: "(2::real) powr (of_int (int k) - 52) = 2 ^ (k - 52)"
  proof -
    have "of_int (int k) - 52 = real (k - 52)" using assms(3) by simp
    then have "(2::real) powr (of_int (int k) - 52) = 2 powr (real (k - 52))" by (simp only:)
    also have "\<dots> = 2 ^ (k - 52)"
      by (simp only: powr_realpow[OF zero_less_numeral])
    finally show ?thesis .
  qed
  have a1: "2 powr (of_int (int k)) \<le> \<bar>x\<bar>" using assms(1) by (simp only: p1)
  have a2: "\<bar>x\<bar> < 2 powr (of_int (int k) + 1)" using assms(2) by (simp only: p2)
  have a3: "- 1022 \<le> int k" using assms(3) by simp
  have "rne x = of_int (round_half_even (x / 2 powr (of_int (int k) - 52)))
      * 2 powr (of_int (int k) - 52)"
    using a1 a2 a3 by (rule rne_eval)
  then show ?thesis by (simp only: p3)
qed

lemma huge_gt_one [simp]: "1 < huge"
  by (simp add: huge_def)

lemma huge_pos [simp]: "0 < huge"
  using huge_gt_one by linarith

lemma huge_simps [simp]:
  "\<not> huge \<le> 0" "\<not> huge \<le> 1" "\<not> 0 \<le> - huge" "\<not> 1 \<le> - huge"
  using huge_gt_one by linarith+

lemma rnd_Fin: "\<bar>rne x\<bar> < huge \<Longrightarrow> rnd x = Fin (rne x)"
  by (auto simp: rnd_def Let_def)

lemma rnd_Fin_unit: "\<bar>x\<bar> \<le> 1 \<Longrightarrow> rne 1 = 1 \<Longrightarrow> rnd x = Fin (rne x)"
proof -
  assume a: "\<bar>x\<bar> \<le> 1" and one: "rne 1 = 1"
  have "rne x \<le> rne 1" using a by (intro rne_mono) simp
  moreover have "rne (- 1) \<le> rne x" using a by (intro rne_mono) simp
  ultimately have "\<bar>rne x\<bar> \<le> 1" by (simp add: one rne_neg)
  then have "\<bar>rne x\<bar> < huge" using huge_gt_one by linarith
  then show ?thesis by (rule rnd_Fin)
qed

lemma rnd_zero [simp]: "rnd 0 = Fin 0"
  by (simp add: rnd_def)

lemma rne_one [simp]: "rne 1 = 1"
  by (subst rne_eval_large[of 0]) (simp_all add: round_half_even_def Let_def)

lemma rnd_one [simp]: "rnd 1 = Fin 1"
  using huge_gt_one by (simp add: rnd_Fin)

text \<open>A float that is minus infinity or at most \<open>B\<close>; a float between 0 and \<open>B\<close>.\<close>

definition below :: "real \<Rightarrow> pyfloat \<Rightarrow> bool" where
  "below B f = (f = NInf \<or> (\<exists>r. f = Fin r \<and> r \<le> B))"

definition upto :: "real \<Rightarrow> pyfloat \<Rightarrow> bool" where
  "upto B f = (\<exists>r. f = Fin r \<and> 0 \<le> r \<and> r \<le> B)"

lemma upto_below: "upto B f \<Longrightarrow> below B f"
  by (auto simp: upto_def below_def)

lemma rnd_below:
  assumes "x \<le> y" "rne y \<le> B" "B < huge"
  shows "below B (rnd x)"
proof -
  have "rne x \<le> B" using rne_mono[OF assms(1)] assms(2) by linarith
  then show ?thesis using assms(3) by (auto simp: rnd_def Let_def below_def)
qed

lemma rnd_upto:
  assumes "0 \<le> x" "x \<le> y" "rne y \<le> B" "B < huge"
  shows "upto B (rnd x)"
proof -
  have "rne x \<le> B" using rne_mono[OF assms(2)] assms(3) by linarith
  moreover have "0 \<le> rne x" using assms(1) by (rule rne_nonneg)
  ultimately show ?thesis using assms(4) by (auto simp: rnd_def Let_def upto_def)
qed

lemma rnd_at_least:
  assumes "y \<le> x" "rne y = B" "- (huge) < B"
  shows "rnd x = PInf \<or> (\<exists>r. rnd x = Fin r \<and> B \<le> r)"
proof -
  have "B \<le> rne x" using rne_mono[OF assms(1)] assms(2) by linarith
  then show ?thesis using assms(3) by (auto simp: rnd_def Let_def)
qed


lemma fadd_upto:
  assumes "upto S s" "upto w t" "rne (S + w) \<le> S'" "S' < huge"
  shows "upto S' (fadd s t)"
proof -
  obtain a b where ab: "s = Fin a" "0 \<le> a" "a \<le> S" "t = Fin b" "0 \<le> b" "b \<le> w"
    using assms(1,2) by (auto simp: upto_def)
  have "upto S' (rnd (a + b))"
    using ab assms(3,4) by (intro rnd_upto[of _ "S + w"]) simp_all
  then show ?thesis using ab by simp
qed

text \<open>
  One term of the score: \<^verbatim>\<open>w * min(v / c, 1.0)\<close> for a weight and a cap that are
  positive floats.
\<close>

definition weighted_term :: "pyfloat \<Rightarrow> pyfloat \<Rightarrow> pyfloat \<Rightarrow> pyfloat" where
  "weighted_term w c v = fmul w (py_min (fdiv v c) (Fin 1))"

lemma clamp_cases:
  assumes "0 < c"
  shows "(py_min (fdiv (Fin x) (Fin c)) (Fin 1) = NInf \<and> x < 0)
     \<or> (\<exists>y. py_min (fdiv (Fin x) (Fin c)) (Fin 1) = Fin y \<and> y \<le> 1
            \<and> (0 \<le> x \<longrightarrow> 0 \<le> y) \<and> (c \<le> x \<longrightarrow> y = 1))"
proof -
  have nn: "0 \<le> x \<Longrightarrow> 0 \<le> rne (x / c)" using assms by (intro rne_nonneg) simp
  have ge: "c \<le> x \<Longrightarrow> 1 \<le> rne (x / c)"
  proof -
    assume "c \<le> x"
    then have "1 \<le> x / c" using assms by simp
    then have "rne 1 \<le> rne (x / c)" by (rule rne_mono)
    then show ?thesis by simp
  qed
  have hp: "0 < huge" using huge_gt_one by linarith
  show ?thesis
  proof (cases "0 \<le> x")
    case True
    then show ?thesis using nn ge hp by (auto simp: py_min_def rnd_def Let_def)
  next
    case False
    then have "x < 0" "\<not> c \<le> x" using assms by linarith+
    then show ?thesis by (auto simp: py_min_def rnd_def Let_def)
  qed
qed

lemma weighted_term_below:
  assumes "0 < w" "rne w = w" "w < huge" "0 < c"
  shows "below w (weighted_term (Fin w) (Fin c) (Fin x))"
    and "0 \<le> x \<Longrightarrow> upto w (weighted_term (Fin w) (Fin c) (Fin x))"
    and "c \<le> x \<Longrightarrow> weighted_term (Fin w) (Fin c) (Fin x) = Fin w"
proof -
  let ?m = "py_min (fdiv (Fin x) (Fin c)) (Fin 1)"
  have w1024: "\<not> huge \<le> w" "\<not> w \<le> - (huge)" using assms(1,3) by linarith+
  have rw: "rnd w = Fin w" using assms(2) w1024 by (simp add: rnd_def Let_def)
  from clamp_cases[OF assms(4), of x] consider "?m = NInf" "x < 0"
    | y where "?m = Fin y" "y \<le> 1" "0 \<le> x \<longrightarrow> 0 \<le> y" "c \<le> x \<longrightarrow> y = 1"
    by blast
  then have "below w (weighted_term (Fin w) (Fin c) (Fin x))
      \<and> (0 \<le> x \<longrightarrow> upto w (weighted_term (Fin w) (Fin c) (Fin x)))
      \<and> (c \<le> x \<longrightarrow> weighted_term (Fin w) (Fin c) (Fin x) = Fin w)"
  proof cases
    case 1
    then show ?thesis
      using assms(1,4) by (auto simp: weighted_term_def below_def signed_inf_def)
  next
    case 2
    have le: "w * y \<le> w" using 2(2) assms(1) by simp
    have b: "below w (rnd (w * y))"
      using le assms(2,3) by (intro rnd_below[of _ w]) simp_all
    have i: "0 \<le> x \<Longrightarrow> upto w (rnd (w * y))"
      using le 2(3) assms by (intro rnd_upto[of _ w]) simp_all
    have e: "c \<le> x \<Longrightarrow> rnd (w * y) = Fin w"
      using 2(4) rw by simp
    show ?thesis using b i e 2(1) by (simp add: weighted_term_def)
  qed
  then show "below w (weighted_term (Fin w) (Fin c) (Fin x))"
    and "0 \<le> x \<Longrightarrow> upto w (weighted_term (Fin w) (Fin c) (Fin x))"
    and "c \<le> x \<Longrightarrow> weighted_term (Fin w) (Fin c) (Fin x) = Fin w"
    by blast+
qed

section \<open>Zoom targeting: risk scoring\<close>

text \<open>
  The two tables of \<^verbatim>\<open>calculate_risk_score\<close>, in insertion order (\<open>norm_table\<close> is
  the dictionary \<^verbatim>\<open>norm\<close>; its integer \<^verbatim>\<open>4000\<close> becomes a float in the division).
\<close>

definition weights :: "(string \<times> pyfloat) list" where
  "weights =
     [(''CAPE'', lit 0.25), (''vorticity'', lit 0.25), (''humidity'', lit 0.15),
      (''vertical_velocity'', lit 0.15), (''anomaly_score'', lit 0.20)]"

definition norm_table :: "(string \<times> pyfloat) list" where
  "norm_table =
     [(''CAPE'', lit 4000), (''vorticity'', lit 0.0015), (''humidity'', lit 1.0),
      (''vertical_velocity'', lit 3.0), (''anomaly_score'', lit 1.0)]"

text \<open>
  The loop \<^verbatim>\<open>for key, w in weights.items()\<close>, with the running score as accumulator:
  \<^verbatim>\<open>value = float(sensor_data.get(key, 0.0)); score += w * min(value / norm[key], 1.0)\<close>.
\<close>

fun risk_loop :: "builtins \<Rightarrow> (string \<times> pyfloat) list \<Rightarrow> pydict \<Rightarrow> pyfloat \<Rightarrow> error + pyfloat" where
  "risk_loop py [] sensor_data score = Inr score"
| "risk_loop py ((key, w) # rest) sensor_data score =
     bind (py_float py (py_get sensor_data key (VNum 0.0))) (\<lambda>v.
       case map_of norm_table key of
         None \<Rightarrow> Inl KeyError
       | Some c \<Rightarrow>
           bind (py_truediv v c) (\<lambda>q.
             risk_loop py rest sensor_data (fadd score (fmul w (py_min q (lit 1.0))))))"

definition calculate_risk_score :: "builtins \<Rightarrow> pydict \<Rightarrow> error + pyfloat" where
  "calculate_risk_score py sensor_data =
     bind (risk_loop py weights sensor_data (lit 0.0)) (\<lambda>score. Inr (py_round score 3))"

text \<open>
  What a reading holds under a feature key: a number that \<^verbatim>\<open>float\<close> converts, or nothing
  at all. \<open>ffeat\<close> is the feature as a float, \<open>0.0\<close> when the key is absent.
\<close>

definition feature_keys :: "string list" where
  "feature_keys = [''CAPE'', ''vorticity'', ''humidity'', ''vertical_velocity'', ''anomaly_score'']"

definition float_or_absent :: "pydict \<Rightarrow> string \<Rightarrow> bool" where
  "float_or_absent d k =
     (case d k of None \<Rightarrow> True | Some (VNum x) \<Rightarrow> \<bar>rne x\<bar> < huge | Some _ \<Rightarrow> False)"

definition ffeat :: "pydict \<Rightarrow> string \<Rightarrow> real" where
  "ffeat d k = (case d k of Some (VNum x) \<Rightarrow> rne x | _ \<Rightarrow> 0)"

definition float_reading :: "pydict \<Rightarrow> bool" where
  "float_reading d = list_all (float_or_absent d) feature_keys"

text \<open>
  The score as the specification words it: each raw value divided by its cap, clamped
  above at 1, weighted, and summed in the order of the table from \<open>0.0\<close>, all in float
  arithmetic (the rounding to 3 decimals is applied on top).
\<close>

definition weighted_sum_spec :: "pydict \<Rightarrow> pyfloat" where
  "weighted_sum_spec d =
     fadd (fadd (fadd (fadd (fadd (Fin 0)
       (weighted_term (lit 0.25) (lit 4000) (Fin (ffeat d ''CAPE''))))
       (weighted_term (lit 0.25) (lit 0.0015) (Fin (ffeat d ''vorticity''))))
       (weighted_term (lit 0.15) (lit 1.0) (Fin (ffeat d ''humidity''))))
       (weighted_term (lit 0.15) (lit 3.0) (Fin (ffeat d ''vertical_velocity''))))
       (weighted_term (lit 0.20) (lit 1.0) (Fin (ffeat d ''anomaly_score'')))"

subsection \<open>The floats of the two tables\<close>

text \<open>
  The floats nearest to 0.15, 0.2 and 0.0015, and the partial sums 0.65 and 0.8 of the
  weights as the loop accumulates them.
\<close>

definition w15 :: real where
  "w15 = 5404319552844595 / 2 ^ 55"

definition w20 :: real where
  "w20 = 3602879701896397 / 2 ^ 54"

definition c15 :: real where
  "c15 = 3458764513820541 / 2 ^ 61"

definition s65 :: real where
  "s65 = 5854679515581645 / 2 ^ 53"

definition s80 :: real where
  "s80 = 3602879701896397 / 2 ^ 52"

lemma rne_quarter: "rne (1 / 4) = 1 / 4"
  by (subst rne_eval_small[of 2]) (simp_all add: round_half_even_def Let_def)

lemma rne_015: "rne 0.15 = w15"
  unfolding w15_def by (subst rne_eval_small[of 3]) (simp_all add: round_half_even_def Let_def)

lemma rne_w15: "rne w15 = w15"
  unfolding w15_def by (subst rne_eval_small[of 3]) (simp_all add: round_half_even_def Let_def)

lemma rne_020: "rne 0.20 = w20"
  unfolding w20_def by (subst rne_eval_small[of 3]) (simp_all add: round_half_even_def Let_def)

lemma rne_w20: "rne w20 = w20"
  unfolding w20_def by (subst rne_eval_small[of 3]) (simp_all add: round_half_even_def Let_def)

lemma rne_4000: "rne 4000 = 4000"
  by (subst rne_eval_large[of 11]) (simp_all add: round_half_even_def Let_def)

lemma rne_00015: "rne 0.0015 = c15"
  unfolding c15_def by (subst rne_eval_small[of 10]) (simp_all add: round_half_even_def Let_def)

lemma rne_3: "rne 3 = 3"
  by (subst rne_eval_large[of 1]) (simp_all add: round_half_even_def Let_def)

lemma table_bounds:
  "0 < w15" "w15 < 1" "0 < w20" "w20 < 1" "0 < c15" "c15 < 1" "0 < s65" "s65 < 1" "0 < s80" "s80 < 1"
  by (simp_all add: w15_def w20_def c15_def s65_def s80_def)

lemma lt_huge: "x < 1 \<Longrightarrow> x < huge"
  using huge_gt_one by linarith

lemma lit_of: "rne x = r \<Longrightarrow> \<bar>r\<bar> < huge \<Longrightarrow> lit x = Fin r"
  by (simp add: lit_def rnd_Fin)

lemma lit_values:
  "lit 0.25 = Fin (1 / 4)" "lit 0.15 = Fin w15" "lit 0.20 = Fin w20" "lit 4000 = Fin 4000"
  "lit 0.0015 = Fin c15" "lit 1.0 = Fin 1" "lit 3.0 = Fin 3" "lit 0.0 = Fin 0"
proof -
  have q: "(0.25::real) = 1 / 4" by simp
  show "lit 0.25 = Fin (1 / 4)"
    unfolding q by (rule lit_of[OF rne_quarter]) (simp add: huge_def)
  show "lit 0.15 = Fin w15"
    by (rule lit_of[OF rne_015]) (use table_bounds lt_huge in auto)
  show "lit 0.20 = Fin w20"
    by (rule lit_of[OF rne_020]) (use table_bounds lt_huge in auto)
  show "lit 4000 = Fin 4000"
    by (rule lit_of[OF rne_4000]) (simp add: huge_def)
  show "lit 0.0015 = Fin c15"
    by (rule lit_of[OF rne_00015]) (use table_bounds lt_huge in auto)
  show "lit 1.0 = Fin 1" by (simp add: lit_def)
  have "lit 3 = Fin 3"
    by (rule lit_of[OF rne_3]) (simp add: huge_def)
  then show "lit 3.0 = Fin 3" by simp
  show "lit 0.0 = Fin 0" by (simp add: lit_def)
qed

lemma partial_sums:
  "rne (0 + 1 / 4) = 1 / 4"
  "rne (1 / 4 + 1 / 4) = 1 / 2"
  "rne (1 / 2 + w15) = s65"
  "rne (s65 + w15) = s80"
  "rne (s80 + w20) = 1"
proof -
  show "rne (0 + 1 / 4) = 1 / 4" by (simp add: rne_quarter)
  show "rne (1 / 4 + 1 / 4) = 1 / 2"
    by (subst rne_eval_small[of 1]) (simp_all add: round_half_even_def Let_def)
  show "rne (1 / 2 + w15) = s65"
    unfolding w15_def s65_def
    by (subst rne_eval_small[of 1]) (simp_all add: round_half_even_def Let_def)
  show "rne (s65 + w15) = s80"
    unfolding w15_def s65_def s80_def
    by (subst rne_eval_small[of 1]) (simp_all add: round_half_even_def Let_def)
  show "rne (s80 + w20) = 1"
    unfolding w20_def s80_def
    by (subst rne_eval_small[of 0]) (simp_all add: round_half_even_def Let_def)
qed

subsection \<open>Properties of the risk score\<close>

lemma float_of_num_Fin: "\<bar>rne x\<bar> < huge \<Longrightarrow> float_of_num x = Inr (Fin (rne x))"
  by (simp add: float_of_num_def rnd_Fin)

lemma float_of_num_zero [simp]: "float_of_num 0 = Inr (Fin 0)"
  by (simp add: float_of_num_def)

lemma py_float_get:
  "float_or_absent d k \<Longrightarrow> py_float py (py_get d k (VNum 0)) = Inr (Fin (ffeat d k))"
  by (auto simp: float_or_absent_def py_get_def ffeat_def float_of_num_Fin
      split: option.splits pyval.splits)

lemma lit_simps:
  "lit (1 / 4) = Fin (1 / 4)" "lit (3 / 20) = Fin w15" "lit (1 / 5) = Fin w20"
  "lit 4000 = Fin 4000" "lit (3 / 2000) = Fin c15" "lit 1 = Fin 1" "lit 3 = Fin 3"
  "lit 0 = Fin 0"
  using lit_values by simp_all

lemma table_nonzero: "c15 \<noteq> 0" "w15 \<noteq> 0" "w20 \<noteq> 0"
  using table_bounds by auto

lemma risk_loop_weights:
  assumes "float_reading d"
  shows "risk_loop py weights d (lit 0.0) = Inr (weighted_sum_spec d)"
proof -
  have g: "py_float py (py_get d k (VNum 0)) = Inr (Fin (ffeat d k))"
    if "k \<in> set feature_keys" for k
    using assms that by (intro py_float_get) (simp add: float_reading_def list_all_iff)
  have g5: "py_float py (py_get d ''CAPE'' (VNum 0)) = Inr (Fin (ffeat d ''CAPE''))"
    "py_float py (py_get d ''vorticity'' (VNum 0)) = Inr (Fin (ffeat d ''vorticity''))"
    "py_float py (py_get d ''humidity'' (VNum 0)) = Inr (Fin (ffeat d ''humidity''))"
    "py_float py (py_get d ''vertical_velocity'' (VNum 0)) = Inr (Fin (ffeat d ''vertical_velocity''))"
    "py_float py (py_get d ''anomaly_score'' (VNum 0)) = Inr (Fin (ffeat d ''anomaly_score''))"
    by (rule g, simp add: feature_keys_def)+
  show ?thesis
    by (simp add: weights_def norm_table_def weighted_sum_spec_def weighted_term_def bind_def
        g5 py_truediv_def table_nonzero lit_simps)
qed

lemma calculate_risk_score_float:
  assumes "float_reading d"
  shows "calculate_risk_score py d = Inr (py_round (weighted_sum_spec d) 3)"
  unfolding calculate_risk_score_def risk_loop_weights[OF assms] bind_def by simp

lemma weight_side:
  "0 < (1 / 4 :: real)" "(1 / 4 :: real) < huge" "w15 < huge" "w20 < huge"
  "0 < (4000 :: real)" "0 < (1 :: real)" "0 < (3 :: real)"
  using table_bounds(2,4) huge_gt_one by (simp_all, linarith+)


lemma weight_facts_nonneg:
  assumes "0 \<le> x"
  shows "upto (1 / 4) (weighted_term (lit 0.25) (lit 4000) (Fin x))"
  "upto (1 / 4) (weighted_term (lit 0.25) (lit 0.0015) (Fin x))"
  "upto w15 (weighted_term (lit 0.15) (lit 1.0) (Fin x))"
  "upto w15 (weighted_term (lit 0.15) (lit 3.0) (Fin x))"
  "upto w20 (weighted_term (lit 0.20) (lit 1.0) (Fin x))"
  unfolding lit_values
  by (rule weighted_term_below(2)[OF weight_side(1) rne_quarter weight_side(2) weight_side(5) assms]
      weighted_term_below(2)[OF weight_side(1) rne_quarter weight_side(2) table_bounds(5) assms]
      weighted_term_below(2)[OF table_bounds(1) rne_w15 weight_side(3) weight_side(6) assms]
      weighted_term_below(2)[OF table_bounds(1) rne_w15 weight_side(3) weight_side(7) assms]
      weighted_term_below(2)[OF table_bounds(3) rne_w20 weight_side(4) weight_side(6) assms])+

lemma weight_facts_cap:
  "4000 \<le> x \<Longrightarrow> weighted_term (lit 0.25) (lit 4000) (Fin x) = Fin (1 / 4)"
  "c15 \<le> x \<Longrightarrow> weighted_term (lit 0.25) (lit 0.0015) (Fin x) = Fin (1 / 4)"
  "1 \<le> x \<Longrightarrow> weighted_term (lit 0.15) (lit 1.0) (Fin x) = Fin w15"
  "3 \<le> x \<Longrightarrow> weighted_term (lit 0.15) (lit 3.0) (Fin x) = Fin w15"
  "1 \<le> x \<Longrightarrow> weighted_term (lit 0.20) (lit 1.0) (Fin x) = Fin w20"
  unfolding lit_values
  by (erule weighted_term_below(3)[OF weight_side(1) rne_quarter weight_side(2) weight_side(5)]
      weighted_term_below(3)[OF weight_side(1) rne_quarter weight_side(2) table_bounds(5)]
      weighted_term_below(3)[OF table_bounds(1) rne_w15 weight_side(3) weight_side(6)]
      weighted_term_below(3)[OF table_bounds(1) rne_w15 weight_side(3) weight_side(7)]
      weighted_term_below(3)[OF table_bounds(3) rne_w20 weight_side(4) weight_side(6)])+

lemma sum_steps:
  assumes "\<And>S w S' s t. P S s \<Longrightarrow> P w t \<Longrightarrow> rne (S + w) \<le> S' \<Longrightarrow> S' < huge \<Longrightarrow> P S' (fadd s t)"
    and "P 0 (Fin 0)"
    and "P (1 / 4) t1" "P (1 / 4) t2" "P w15 t3" "P w15 t4" "P w20 t5"
  shows "P 1 (fadd (fadd (fadd (fadd (fadd (Fin 0) t1) t2) t3) t4) t5)"
proof -
  have a1: "P (1 / 4) (fadd (Fin 0) t1)"
    by (rule assms(1)[OF assms(2) assms(3)]) (simp_all only: partial_sums order_refl, simp add: huge_def)
  have a2: "P (1 / 2) (fadd (fadd (Fin 0) t1) t2)"
    by (rule assms(1)[OF a1 assms(4)]) (simp_all only: partial_sums order_refl, simp add: huge_def)
  have a3: "P s65 (fadd (fadd (fadd (Fin 0) t1) t2) t3)"
    by (rule assms(1)[OF a2 assms(5)]) (simp_all only: partial_sums order_refl, rule lt_huge, rule table_bounds)
  have a4: "P s80 (fadd (fadd (fadd (fadd (Fin 0) t1) t2) t3) t4)"
    by (rule assms(1)[OF a3 assms(6)]) (simp_all only: partial_sums order_refl, rule lt_huge, rule table_bounds)
  show ?thesis
    by (rule assms(1)[OF a4 assms(7)]) (simp_all only: partial_sums order_refl, rule huge_gt_one)
qed


lemma weighted_sum_upto:
  assumes "list_all (\<lambda>k. 0 \<le> ffeat d k) feature_keys"
  shows "upto 1 (weighted_sum_spec d)"
proof -
  have nn: "0 \<le> ffeat d ''CAPE''" "0 \<le> ffeat d ''vorticity''" "0 \<le> ffeat d ''humidity''"
    "0 \<le> ffeat d ''vertical_velocity''" "0 \<le> ffeat d ''anomaly_score''"
    using assms by (simp_all add: feature_keys_def)
  show ?thesis
    unfolding weighted_sum_spec_def
    by (rule sum_steps[where P = upto])
      (rule fadd_upto weight_facts_nonneg nn | simp add: upto_def | assumption)+
qed

lemma weighted_sum_zero:
  assumes "list_all (\<lambda>k. ffeat d k = 0) feature_keys"
  shows "weighted_sum_spec d = Fin 0"
proof -
  have z: "ffeat d ''CAPE'' = 0" "ffeat d ''vorticity'' = 0" "ffeat d ''humidity'' = 0"
    "ffeat d ''vertical_velocity'' = 0" "ffeat d ''anomaly_score'' = 0"
    using assms by (simp_all add: feature_keys_def)
  show ?thesis
    unfolding weighted_sum_spec_def lit_values weighted_term_def z
    by (simp add: py_min_def)
qed

lemma weighted_sum_caps:
  assumes "4000 \<le> ffeat d ''CAPE''" "rne 0.0015 \<le> ffeat d ''vorticity''"
    "1 \<le> ffeat d ''humidity''" "3 \<le> ffeat d ''vertical_velocity''"
    "1 \<le> ffeat d ''anomaly_score''"
  shows "weighted_sum_spec d = Fin 1"
proof -
  have c: "c15 \<le> ffeat d ''vorticity''" using assms(2) by (simp only: rne_00015)
  have r: "rnd x = Fin r" if "rne x = r" "r \<le> 1" "0 \<le> r" for x r
    using that lt_huge[of "\<bar>r\<bar>"] huge_gt_one by (intro rnd_Fin[of x, unfolded that(1)]) linarith
  have f1: "fadd (Fin 0) (Fin (1 / 4)) = Fin (1 / 4)"
    unfolding fadd.simps by (rule r[OF partial_sums(1)]) simp_all
  have f2: "fadd (Fin (1 / 4)) (Fin (1 / 4)) = Fin (1 / 2)"
    unfolding fadd.simps by (rule r[OF partial_sums(2)]) simp_all
  have f3: "fadd (Fin (1 / 2)) (Fin w15) = Fin s65"
    unfolding fadd.simps by (rule r[OF partial_sums(3)]) (use table_bounds in auto)
  have f4: "fadd (Fin s65) (Fin w15) = Fin s80"
    unfolding fadd.simps by (rule r[OF partial_sums(4)]) (use table_bounds in auto)
  have f5: "fadd (Fin s80) (Fin w20) = Fin 1"
    unfolding fadd.simps by (rule r[OF partial_sums(5)]) simp_all
  show ?thesis
    unfolding weighted_sum_spec_def
    by (simp only: weight_facts_cap(1)[OF assms(1)] weight_facts_cap(2)[OF c]
        weight_facts_cap(3)[OF assms(3)] weight_facts_cap(4)[OF assms(4)]
        weight_facts_cap(5)[OF assms(5)] f1 f2 f3 f4 f5)
qed

lemma round3_bounds:
  "r \<le> 1 \<Longrightarrow> of_int (round_half_even (r * 10 ^ 3)) / 10 ^ 3 \<le> (1::real)"
  "0 \<le> r \<Longrightarrow> 0 \<le> (of_int (round_half_even (r * 10 ^ 3)) / 10 ^ 3 :: real)"
proof -
  show "of_int (round_half_even (r * 10 ^ 3)) / 10 ^ 3 \<le> (1::real)" if "r \<le> 1"
  proof -
    have "\<lceil>r * 1000\<rceil> \<le> 1000" using that by (simp add: ceiling_le_iff)
    then have "round_half_even (r * 1000) \<le> 1000"
      using round_half_even_bounds[of "r * 1000"] by linarith
    then have "(of_int (round_half_even (r * 1000)) :: real) \<le> 1000" by simp
    then show ?thesis by simp
  qed
  show "0 \<le> (of_int (round_half_even (r * 10 ^ 3)) / 10 ^ 3 :: real)" if "0 \<le> r"
  proof -
    have "0 \<le> \<lfloor>r * 1000\<rfloor>" using that by simp
    then have "0 \<le> round_half_even (r * 1000)"
      using round_half_even_bounds[of "r * 1000"] by linarith
    then show ?thesis by simp
  qed
qed

lemma py_round_upto: "upto 1 f \<Longrightarrow> upto 1 (py_round f 3)"
proof -
  assume "upto 1 f"
  then obtain r where r: "f = Fin r" "0 \<le> r" "r \<le> 1" by (auto simp: upto_def)
  have "upto 1 (rnd (of_int (round_half_even (r * 10 ^ 3)) / 10 ^ 3))"
    by (rule rnd_upto[of _ 1]) (use r round3_bounds in simp_all)
  then show ?thesis by (simp add: r)
qed


lemma py_round_exact: "py_round (Fin 0) 3 = Fin 0" "py_round (Fin 1) 3 = Fin 1"
  by (simp_all add: round_half_even_def)

lemma rne_two: "rne 2 = 2"
  by (subst rne_eval_large[of 1]) (simp_all add: round_half_even_def Let_def)

lemma rnd_eval_small:
  fixes k :: nat
  assumes "1 / 2 ^ k \<le> \<bar>x\<bar>" "\<bar>x\<bar> < 2 / 2 ^ k" "k \<le> 1022"
  shows "rnd x = Fin (of_int (round_half_even (x * 2 ^ (k + 52))) / 2 ^ (k + 52))"
proof -
  have "(2::real) / 2 ^ k \<le> 2" by (simp add: divide_le_eq)
  then have x2: "\<bar>x\<bar> \<le> 2" using assms(2) by linarith
  have "rne x \<le> rne 2" using x2 by (intro rne_mono) simp
  moreover have "rne (- 2) \<le> rne x" using x2 by (intro rne_mono) simp
  ultimately have "\<bar>rne x\<bar> \<le> 2" by (simp add: rne_two rne_neg)
  moreover have "2 < huge" by (simp add: huge_def)
  ultimately have "\<bar>rne x\<bar> < huge" by linarith
  then have "rnd x = Fin (rne x)" by (rule rnd_Fin)
  then show ?thesis by (simp only: rne_eval_small[OF assms])
qed

lemma weighted_term_zero [simp]: "c \<noteq> 0 \<Longrightarrow> weighted_term (Fin w) (Fin c) (Fin 0) = Fin 0"
  by (simp add: weighted_term_def py_min_def)

text \<open>
  Claim C1, amended. On a reading whose five sensor features are absent or numbers that
  \<^verbatim>\<open>float\<close> converts (every float, and every integer within the range of the floats),
  \<^verbatim>\<open>calculate_risk_score\<close> returns the weighted sum (weights 0.25, 0.25, 0.15, 0.15, 0.20)
  of each raw value divided by its cap (4000, 0.0015, 1.0, 3.0, 1.0) and clamped above at
  1.0, with no clamp from below, summed in float arithmetic in the order of the table
  and rounded to 3 decimals. When the five features are non-negative the score lies in
  \<open>[0, 1]\<close>; when they are all zero or absent it is exactly 0.0; when each is at or
  above its cap it is exactly 1.0.
\<close>

theorem calculate_risk_score_spec:
  assumes "float_reading d"
  shows "calculate_risk_score py d = Inr (py_round (weighted_sum_spec d) 3)
    \<and> (list_all (\<lambda>k. 0 \<le> ffeat d k) feature_keys \<longrightarrow>
          (\<exists>s. calculate_risk_score py d = Inr (Fin s) \<and> 0 \<le> s \<and> s \<le> 1))
    \<and> (list_all (\<lambda>k. ffeat d k = 0) feature_keys \<longrightarrow> calculate_risk_score py d = Inr (Fin 0))
    \<and> (4000 \<le> ffeat d ''CAPE'' \<and> rne 0.0015 \<le> ffeat d ''vorticity'' \<and> 1 \<le> ffeat d ''humidity''
          \<and> 3 \<le> ffeat d ''vertical_velocity'' \<and> 1 \<le> ffeat d ''anomaly_score'' \<longrightarrow>
          calculate_risk_score py d = Inr (Fin 1))"
proof -
  have eq: "calculate_risk_score py d = Inr (py_round (weighted_sum_spec d) 3)"
    using assms by (rule calculate_risk_score_float)
  have unit: "\<exists>s. calculate_risk_score py d = Inr (Fin s) \<and> 0 \<le> s \<and> s \<le> 1"
    if "list_all (\<lambda>k. 0 \<le> ffeat d k) feature_keys"
    using py_round_upto[OF weighted_sum_upto[OF that]] eq by (auto simp: upto_def)
  have zero: "calculate_risk_score py d = Inr (Fin 0)"
    if "list_all (\<lambda>k. ffeat d k = 0) feature_keys"
    unfolding eq weighted_sum_zero[OF that] by (simp only: py_round_exact)
  have caps: "calculate_risk_score py d = Inr (Fin 1)"
    if "4000 \<le> ffeat d ''CAPE'' \<and> rne 0.0015 \<le> ffeat d ''vorticity'' \<and> 1 \<le> ffeat d ''humidity''
          \<and> 3 \<le> ffeat d ''vertical_velocity'' \<and> 1 \<le> ffeat d ''anomaly_score''"
  proof -
    have "weighted_sum_spec d = Fin 1" using that by (intro weighted_sum_caps) blast+
    then show ?thesis unfolding eq by (simp only: py_round_exact)
  qed
  from eq unit zero caps show ?thesis by blast
qed

subsection \<open>Concrete readings\<close>

text \<open>
  A stand-in for the two parameters, to run the functions on: a parser that accepts no
  string, and an unordered sort that moves nothing.
\<close>

definition demo_py :: builtins where
  "demo_py = \<lparr>float_of_str = (\<lambda>s. Inl ValueError), sort_unordered = (\<lambda>ks. [0..<length ks])\<rparr>"

text \<open>
  Every feature at its cap; only \<^verbatim>\<open>CAPE = 8\<close>; only \<^verbatim>\<open>humidity = 0.25\<close>; a negative
  feature; and an integer feature beyond the range of the floats.
\<close>

definition reading_at_caps :: pydict where
  "reading_at_caps =
     [''CAPE'' \<mapsto> VNum 4000, ''vorticity'' \<mapsto> VNum 0.0015, ''humidity'' \<mapsto> VNum 1,
      ''vertical_velocity'' \<mapsto> VNum 3, ''anomaly_score'' \<mapsto> VNum 1]"

definition reading_cape8 :: pydict where
  "reading_cape8 = [''CAPE'' \<mapsto> VNum 8]"

definition reading_humid :: pydict where
  "reading_humid = [''humidity'' \<mapsto> VNum (1 / 4)]"

definition reading_negative :: pydict where
  "reading_negative = [''CAPE'' \<mapsto> VNum (- 4000), ''humidity'' \<mapsto> VNum 1]"

definition reading_huge :: pydict where
  "reading_huge = [''CAPE'' \<mapsto> VNum huge]"

text \<open>The floats 0.002, 0.0005, 0.001, 0.0375, 0.037 and 0.1.\<close>

definition d002 :: real where "d002 = 1152921504606847 / 2 ^ 59"
definition d0005 :: real where "d0005 = 1152921504606847 / 2 ^ 61"
definition d001 :: real where "d001 = 1152921504606847 / 2 ^ 60"
definition d0375 :: real where "d0375 = 5404319552844595 / 2 ^ 57"
definition d037 :: real where "d037 = 5332261958806667 / 2 ^ 57"
definition d01 :: real where "d01 = 3602879701896397 / 2 ^ 55"

lemma rne_small_ints: "rne 8 = 8" "rne (- 4000) = - 4000"
proof -
  show "rne 8 = 8" by (subst rne_eval_large[of 3]) (simp_all add: round_half_even_def Let_def)
  show "rne (- 4000) = - 4000" using rne_neg[of 4000] by (simp add: rne_4000)
qed

lemma ffeat_caps:
  "ffeat reading_at_caps ''CAPE'' = 4000" "ffeat reading_at_caps ''vorticity'' = rne 0.0015"
  "ffeat reading_at_caps ''humidity'' = 1" "ffeat reading_at_caps ''vertical_velocity'' = 3"
  "ffeat reading_at_caps ''anomaly_score'' = 1"
  by (simp_all add: ffeat_def reading_at_caps_def rne_4000 rne_3)

lemma ffeat_cape8:
  "ffeat reading_cape8 ''CAPE'' = 8" "ffeat reading_cape8 ''vorticity'' = 0"
  "ffeat reading_cape8 ''humidity'' = 0" "ffeat reading_cape8 ''vertical_velocity'' = 0"
  "ffeat reading_cape8 ''anomaly_score'' = 0"
  by (simp_all add: ffeat_def reading_cape8_def rne_small_ints)

lemma ffeat_humid:
  "ffeat reading_humid ''CAPE'' = 0" "ffeat reading_humid ''vorticity'' = 0"
  "ffeat reading_humid ''humidity'' = 1 / 4" "ffeat reading_humid ''vertical_velocity'' = 0"
  "ffeat reading_humid ''anomaly_score'' = 0"
  by (simp_all add: ffeat_def reading_humid_def rne_quarter)

lemma ffeat_negative:
  "ffeat reading_negative ''CAPE'' = - 4000" "ffeat reading_negative ''vorticity'' = 0"
  "ffeat reading_negative ''humidity'' = 1" "ffeat reading_negative ''vertical_velocity'' = 0"
  "ffeat reading_negative ''anomaly_score'' = 0"
  by (simp_all add: ffeat_def reading_negative_def rne_small_ints)

lemma rne_norm: "rne (3 / 2000) = c15"
  using rne_00015 by simp

lemma float_readings:
  "float_reading reading_at_caps" "float_reading reading_cape8" "float_reading reading_humid"
  "float_reading reading_negative" "float_reading Map.empty"
  by (simp_all add: float_reading_def float_or_absent_def feature_keys_def reading_at_caps_def
      reading_cape8_def reading_humid_def reading_negative_def rne_4000 rne_3 rne_norm
      rne_small_ints rne_quarter c15_def huge_def)

lemma sum_cape8: "weighted_sum_spec reading_cape8 = Fin d0005"
proof -
  have e1: "rnd (8 / 4000) = Fin d002"
    unfolding d002_def by (subst rnd_eval_small[of 9]) (simp_all add: round_half_even_def Let_def)
  have e2: "rnd (1 / 4 * d002) = Fin d0005"
    unfolding d002_def d0005_def
    by (subst rnd_eval_small[of 11]) (simp_all add: round_half_even_def Let_def)
  have e3: "rnd d0005 = Fin d0005"
    unfolding d0005_def
    by (subst rnd_eval_small[of 11]) (simp_all add: round_half_even_def Let_def)
  have t1: "weighted_term (Fin (1 / 4)) (Fin 4000) (Fin 8) = Fin d0005"
    unfolding weighted_term_def fdiv.simps e1 py_min_def flt.simps
    using e2 by (simp add: d002_def)
  show ?thesis
    unfolding weighted_sum_spec_def lit_values ffeat_cape8 t1
    by (simp add: table_nonzero e3)
qed

lemma score_cape8: "py_round (Fin d0005) 3 = Fin d001"
proof -
  have "round_half_even (d0005 * 10 ^ 3) = 1"
    by (simp add: d0005_def round_half_even_def Let_def)
  moreover have "rnd (1 / 10 ^ 3) = Fin d001"
    unfolding d001_def by (subst rnd_eval_small[of 10]) (simp_all add: round_half_even_def Let_def)
  ultimately show ?thesis by simp
qed


lemma sum_humid: "weighted_sum_spec reading_humid = Fin d0375"
proof -
  have e1: "rnd (1 / 4 / 1) = Fin (1 / 4)"
    by (subst rnd_eval_small[of 2]) (simp_all add: round_half_even_def Let_def)
  have e2: "rnd (w15 * (1 / 4)) = Fin d0375"
    unfolding w15_def d0375_def
    by (subst rnd_eval_small[of 5]) (simp_all add: round_half_even_def Let_def)
  have e3: "rnd d0375 = Fin d0375"
    unfolding d0375_def
    by (subst rnd_eval_small[of 5]) (simp_all add: round_half_even_def Let_def)
  have t3: "weighted_term (Fin w15) (Fin 1) (Fin (1 / 4)) = Fin d0375"
    unfolding weighted_term_def fdiv.simps e1 py_min_def flt.simps
    using e2 by simp
  show ?thesis
    unfolding weighted_sum_spec_def lit_values ffeat_humid t3
    by (simp add: table_nonzero e3)
qed

lemma score_humid: "py_round (Fin d0375) 3 = Fin d037"
proof -
  have "round_half_even (d0375 * 10 ^ 3) = 37"
    by (simp add: d0375_def round_half_even_def Let_def)
  moreover have "rnd (37 / 10 ^ 3) = Fin d037"
    unfolding d037_def by (subst rnd_eval_small[of 5]) (simp_all add: round_half_even_def Let_def)
  ultimately show ?thesis by simp
qed

lemma sum_negative: "weighted_sum_spec reading_negative = Fin (- d01)"
proof -
  have e1: "rnd (- 4000 / 4000) = Fin (- 1)"
    by (subst rnd_eval_small[of 0]) (simp_all add: round_half_even_def Let_def)
  have e2: "rnd (1 / 4 * - 1) = Fin (- (1 / 4))"
    by (subst rnd_eval_small[of 2]) (simp_all add: round_half_even_def Let_def)
  have e3: "rnd (- (1 / 4)) = Fin (- (1 / 4))"
    by (subst rnd_eval_small[of 2]) (simp_all add: round_half_even_def Let_def)
  have e4: "rnd (w15 * 1) = Fin w15"
    unfolding w15_def by (subst rnd_eval_small[of 3]) (simp_all add: round_half_even_def Let_def)
  have e5: "rnd (- (1 / 4) + w15) = Fin (- d01)"
    unfolding w15_def d01_def
    by (subst rnd_eval_small[of 4]) (simp_all add: round_half_even_def Let_def)
  have e6: "rnd (- d01) = Fin (- d01)"
    unfolding d01_def
    by (subst rnd_eval_small[of 4]) (simp_all add: round_half_even_def Let_def)
  have t1: "weighted_term (Fin (1 / 4)) (Fin 4000) (Fin (- 4000)) = Fin (- (1 / 4))"
    unfolding weighted_term_def fdiv.simps e1 py_min_def flt.simps
    using e2 by simp
  have t3: "weighted_term (Fin w15) (Fin 1) (Fin 1) = Fin w15"
    unfolding weighted_term_def using e4 by (simp add: py_min_def)
  show ?thesis
    unfolding weighted_sum_spec_def lit_values ffeat_negative t1 t3
    using e3 e5 e6 by (simp add: table_nonzero)
qed

lemma score_negative: "py_round (Fin (- d01)) 3 = Fin (- d01)"
proof -
  have "round_half_even (- d01 * 10 ^ 3) = - 100"
    by (simp add: d01_def round_half_even_def Let_def)
  moreover have "rnd (- 100 / 10 ^ 3) = Fin (- d01)"
    unfolding d01_def by (subst rnd_eval_small[of 4]) (simp_all add: round_half_even_def Let_def)
  ultimately show ?thesis by simp
qed

lemma lit_results: "lit 0.001 = Fin d001" "lit 0.037 = Fin d037" "lit (- 0.1) = Fin (- d01)"
  unfolding lit_def d001_def d037_def d01_def
  by (subst rnd_eval_small[of 10], simp_all add: round_half_even_def Let_def,
      subst rnd_eval_small[of 5], simp_all add: round_half_even_def Let_def,
      subst rnd_eval_small[of 4], simp_all add: round_half_even_def Let_def)

lemma float_of_num_huge: "float_of_num huge = Inl OverflowError"
proof -
  have "rne huge = huge"
    unfolding huge_def
    by (subst rne_eval_huge[of 1024]) (simp_all add: round_half_even_def Let_def)
  then show ?thesis by (simp add: float_of_num_def rnd_def)
qed

theorem calculate_risk_score_spec_witness:
  "float_reading reading_at_caps \<and> calculate_risk_score demo_py reading_at_caps = Inr (lit 1.0)
   \<and> float_reading Map.empty \<and> list_all (\<lambda>k. ffeat Map.empty k = 0) feature_keys
   \<and> calculate_risk_score demo_py Map.empty = Inr (lit 0.0)
   \<and> float_reading reading_cape8 \<and> list_all (\<lambda>k. 0 \<le> ffeat reading_cape8 k) feature_keys
   \<and> calculate_risk_score demo_py reading_cape8 = Inr (lit 0.001)
   \<and> float_reading reading_humid \<and> calculate_risk_score demo_py reading_humid = Inr (lit 0.037)
   \<and> float_reading reading_negative
   \<and> calculate_risk_score demo_py reading_negative = Inr (lit (- 0.1))"
proof -
  note spec = calculate_risk_score_spec[where py = demo_py]
  have c1: "4000 \<le> ffeat reading_at_caps ''CAPE'' \<and> rne 0.0015 \<le> ffeat reading_at_caps ''vorticity''
      \<and> 1 \<le> ffeat reading_at_caps ''humidity'' \<and> 3 \<le> ffeat reading_at_caps ''vertical_velocity''
      \<and> 1 \<le> ffeat reading_at_caps ''anomaly_score''"
    by (simp add: ffeat_caps)
  have z0: "list_all (\<lambda>k. ffeat Map.empty k = 0) feature_keys"
    by (simp add: ffeat_def feature_keys_def)
  have p8: "list_all (\<lambda>k. 0 \<le> ffeat reading_cape8 k) feature_keys"
    by (simp add: feature_keys_def ffeat_cape8)
  have "calculate_risk_score demo_py reading_at_caps = Inr (Fin 1)"
    using spec[OF float_readings(1)] c1 by blast
  then have a: "calculate_risk_score demo_py reading_at_caps = Inr (lit 1.0)"
    by (simp only: lit_values)
  have "calculate_risk_score demo_py Map.empty = Inr (Fin 0)"
    using spec[OF float_readings(5)] z0 by blast
  then have b: "calculate_risk_score demo_py Map.empty = Inr (lit 0.0)"
    by (simp only: lit_values)
  have "calculate_risk_score demo_py reading_cape8
      = Inr (py_round (weighted_sum_spec reading_cape8) 3)"
    using spec[OF float_readings(2)] by blast
  then have c: "calculate_risk_score demo_py reading_cape8 = Inr (lit 0.001)"
    by (simp only: sum_cape8 score_cape8 lit_results)
  have "calculate_risk_score demo_py reading_humid
      = Inr (py_round (weighted_sum_spec reading_humid) 3)"
    using spec[OF float_readings(3)] by blast
  then have d: "calculate_risk_score demo_py reading_humid = Inr (lit 0.037)"
    by (simp only: sum_humid score_humid lit_results)
  have "calculate_risk_score demo_py reading_negative
      = Inr (py_round (weighted_sum_spec reading_negative) 3)"
    using spec[OF float_readings(4)] by blast
  then have e: "calculate_risk_score demo_py reading_negative = Inr (lit (- 0.1))"
    by (simp only: sum_negative score_negative lit_results)
  from a b c d e float_readings z0 p8 show ?thesis by blast
qed

text \<open>
  An integer feature of \<open>2 ^ 1024\<close> is non-negative, and \<^verbatim>\<open>float\<close> raises on it: no
  score is returned.
\<close>

theorem calculate_risk_score_overflow_counterexample:
  "reading_huge ''CAPE'' = Some (VNum (2 ^ 1024)) \<and> (0::real) \<le> 2 ^ 1024
   \<and> calculate_risk_score demo_py reading_huge = Inl OverflowError"
proof -
  have "py_float demo_py (py_get reading_huge ''CAPE'' (VNum 0.0)) = Inl OverflowError"
    by (simp add: reading_huge_def py_get_def float_of_num_huge)
  then have "calculate_risk_score demo_py reading_huge = Inl OverflowError"
    by (simp add: calculate_risk_score_def weights_def bind_def)
  then show ?thesis by (simp add: reading_huge_def huge_def)
qed

lemma rne_of_int:
  assumes "\<bar>n\<bar> < 2 ^ 53"
  shows "rne (of_int n) = of_int n"
proof (cases "n = 0")
  case True
  then show ?thesis by simp
next
  case False
  define x :: real where "x = of_int n"
  have x1: "1 \<le> \<bar>x\<bar>" using False by (simp add: x_def flip: of_int_abs)
  have "\<bar>x\<bar> < of_int (2 ^ 53)" unfolding x_def using assms by (simp flip: of_int_abs)
  then have x2: "\<bar>x\<bar> < 2 powr 53" by simp
  have l0: "0 \<le> log 2 \<bar>x\<bar>" using x1 by simp
  have l1: "log 2 \<bar>x\<bar> < 53" using x1 x2 by (simp add: log_less_iff)
  have e0: "0 \<le> \<lfloor>log 2 \<bar>x\<bar>\<rfloor>" using l0 by simp
  have e1: "\<lfloor>log 2 \<bar>x\<bar>\<rfloor> \<le> 52" using l1 by (simp add: floor_le_iff)
  have ex: "expo x = \<lfloor>log 2 \<bar>x\<bar>\<rfloor>" using e0 by (simp add: expo_def)
  define k where "k = nat (52 - expo x)"
  have ke: "of_int (expo x) - 52 = - real k" using e1 ex by (simp add: k_def)
  have q: "quantum x = 1 / 2 ^ k"
    unfolding quantum_def ke by (simp add: powr_minus powr_realpow divide_simps)
  have "x / quantum x = x * 2 ^ k" by (simp add: q)
  also have "\<dots> = of_int (n * 2 ^ k)" by (simp add: x_def)
  finally have "round_half_even (x / quantum x) = n * 2 ^ k"
    by (simp only: round_half_even_of_int)
  moreover have "x \<noteq> 0" using x1 by auto
  ultimately have "rne x = of_int (n * 2 ^ k) * (1 / 2 ^ k)"
    by (simp only: rne_def q if_False)
  then show ?thesis by (simp add: x_def)
qed

lemma rnd_of_int:
  assumes "\<bar>n\<bar> < 2 ^ 53"
  shows "rnd (of_int n) = Fin (of_int n)"
proof -
  have "\<bar>of_int n :: real\<bar> < of_int (2 ^ 53)" using assms by (simp flip: of_int_abs)
  also have "\<dots> < huge" by (simp add: huge_def)
  finally show ?thesis by (intro rnd_Fin[THEN trans]) (simp_all add: rne_of_int[OF assms])
qed


section \<open>Zoom targeting: prioritisation and geometry\<close>






definition should_zoom :: "builtins \<Rightarrow> pydict \<Rightarrow> pyfloat \<Rightarrow> error + bool" where
  "should_zoom py sensor_data score_threshold =
     bind (calculate_risk_score py sensor_data) (\<lambda>s. Inr (fle score_threshold s))"

definition heading_from_wind_dir :: "builtins \<Rightarrow> pyval \<Rightarrow> string \<Rightarrow> error + pyfloat" where
  "heading_from_wind_dir py wind_from_deg mode =
     bind (py_float py wind_from_deg) (\<lambda>w0.
     bind (py_mod (fadd w0 (lit 360.0)) (lit 360.0)) (\<lambda>w.
       if mode = ''upwind'' then Inr w
       else if mode = ''downwind'' then py_mod (fadd w (lit 180.0)) (lit 360.0)
       else py_mod (fadd w (lit 90.0)) (lit 360.0)))"

text \<open>
  \<^verbatim>\<open>suggest_geometry\<close> returns a dictionary with five fixed keys; a heading that is
  \<open>None\<close> stays \<open>None\<close>, every other number is rounded to one decimal. The parameter
  \<^verbatim>\<open>bank_deg\<close> is written \<open>bank_deg'\<close>, apart from the key of that name.
\<close>

record geometry =
  desired_heading_deg :: "pyfloat option"
  formation_yaw_offset_deg :: pyfloat
  bank_deg :: pyfloat
  angle_of_attack_deg :: pyfloat
  alignment_mode :: string

definition suggest_geometry ::
    "builtins \<Rightarrow> pydict \<Rightarrow> string \<Rightarrow> pyfloat \<Rightarrow> pyfloat \<Rightarrow> pyfloat \<Rightarrow> error + geometry" where
  "suggest_geometry py sensor_data mode default_yaw_deg bank_deg' aoa_deg =
     (let wind_from = py_get sensor_data ''wind_direction'' VNone
      in bind (if wind_from \<noteq> VNone
               then bind (heading_from_wind_dir py wind_from mode) (\<lambda>h. Inr (Some h))
               else Inr None) (\<lambda>desired_heading.
         bind (py_float py (py_get sensor_data ''wind_shear'' (VNum 0.0))) (\<lambda>shear.
         bind (py_float py (py_get sensor_data ''vorticity'' (VNum 0.0))) (\<lambda>vort.
         bind (py_truediv shear (lit 5.0)) (\<lambda>q.
           let yaw = fadd default_yaw_deg (py_min q (lit 10.0));
               bank = fadd bank_deg' (py_min (fmul vort (lit 500.0)) (lit 3.0))
           in Inr \<lparr>desired_heading_deg =
                      (case desired_heading of None \<Rightarrow> None | Some h \<Rightarrow> Some (py_round h 1)),
                    formation_yaw_offset_deg = py_round yaw 1,
                    bank_deg = py_round bank 1,
                    angle_of_attack_deg = py_round aoa_deg 1,
                    alignment_mode = mode\<rparr>)))))"

subsection \<open>Properties of the prioritisation\<close>



















subsection \<open>Properties of the geometry recommendation\<close>

lemma rnd_ints:
  "rnd 2 = Fin 2" "rnd 3 = Fin 3" "rnd 4 = Fin 4" "rnd 5 = Fin 5" "rnd 10 = Fin 10"
  "rnd 14 = Fin 14" "rnd 15 = Fin 15" "rnd 30 = Fin 30" "rnd 90 = Fin 90" "rnd 180 = Fin 180"
  "rnd 200 = Fin 200" "rnd 290 = Fin 290" "rnd 360 = Fin 360" "rnd 500 = Fin 500"
  "rnd 560 = Fin 560" "rnd 1000 = Fin 1000" "rnd 3000 = Fin 3000"
  using rnd_of_int[of 2] rnd_of_int[of 3] rnd_of_int[of 4] rnd_of_int[of 5] rnd_of_int[of 10]
    rnd_of_int[of 14] rnd_of_int[of 15] rnd_of_int[of 30] rnd_of_int[of 90] rnd_of_int[of 180]
    rnd_of_int[of 200] rnd_of_int[of 290] rnd_of_int[of 360] rnd_of_int[of 500]
    rnd_of_int[of 560] rnd_of_int[of 1000] rnd_of_int[of 3000]
  by simp_all

lemma lit_ints:
  "lit 2 = Fin 2" "lit 3 = Fin 3" "lit 5 = Fin 5" "lit 10 = Fin 10" "lit 15 = Fin 15"
  "lit 30 = Fin 30" "lit 90 = Fin 90" "lit 180 = Fin 180" "lit 360 = Fin 360"
  "lit 500 = Fin 500"
  by (simp_all add: lit_def rnd_ints)

lemma py_mod_360: "py_mod x (lit 360) = Inr (fmod x (Fin 360))"
  by (simp add: py_mod_def lit_ints)

lemma py_mod_Fin: "m \<noteq> 0 \<Longrightarrow> py_mod x (Fin m) = Inr (fmod x (Fin m))"
  by (simp add: py_mod_def)

lemma heading_unrecognized:
  "m \<noteq> ''upwind'' \<Longrightarrow> m \<noteq> ''downwind'' \<Longrightarrow>
     heading_from_wind_dir py w m = heading_from_wind_dir py w ''crosswind''"
  by (simp add: heading_from_wind_dir_def)

lemma suggest_geometry_alignment:
  "suggest_geometry py sd m y b a = Inr g \<Longrightarrow> alignment_mode g = m"
  by (auto simp: suggest_geometry_def bind_def Let_def split: sum.splits if_splits)

lemma suggest_geometry_unrecognized:
  assumes "m \<noteq> ''upwind''" "m \<noteq> ''downwind''"
  shows "suggest_geometry py sd m y b a =
     bind (suggest_geometry py sd ''crosswind'' y b a) (\<lambda>g. Inr (g\<lparr>alignment_mode := m\<rparr>))"
  by (simp add: suggest_geometry_def bind_def Let_def heading_unrecognized[OF assms]
      split: sum.splits)

lemma heading_returns:
  "\<bar>rne x\<bar> < huge \<Longrightarrow> \<exists>h. heading_from_wind_dir py (VNum x) m = Inr h"
  by (auto simp: heading_from_wind_dir_def float_of_num_Fin bind_def py_mod_360)

lemma suggest_geometry_returns:
  assumes "float_or_absent sd ''wind_direction''" "float_or_absent sd ''wind_shear''"
    "float_or_absent sd ''vorticity''"
  shows "\<exists>g. suggest_geometry py sd m y b a = Inr g"
proof -
  have 1: "\<exists>h. (if py_get sd ''wind_direction'' VNone \<noteq> VNone
               then bind (heading_from_wind_dir py (py_get sd ''wind_direction'' VNone) m)
                      (\<lambda>h. Inr (Some h))
               else Inr None) = Inr h"
  proof (cases "sd ''wind_direction''")
    case None
    then show ?thesis by (simp add: py_get_def)
  next
    case (Some v)
    with assms(1) obtain x where v: "v = VNum x" and x: "\<bar>rne x\<bar> < huge"
      by (auto simp: float_or_absent_def split: pyval.splits)
    from heading_returns[OF x, of py m] obtain h where
      "heading_from_wind_dir py (VNum x) m = Inr h" by blast
    then show ?thesis by (simp add: py_get_def Some v bind_def)
  qed
  then obtain h where h: "(if py_get sd ''wind_direction'' VNone \<noteq> VNone
               then bind (heading_from_wind_dir py (py_get sd ''wind_direction'' VNone) m)
                      (\<lambda>h. Inr (Some h))
               else Inr None) = Inr h" by blast
  have d: "py_truediv s (lit 5) = Inr (fdiv s (Fin 5))" for s
    by (simp add: py_truediv_def lit_ints)
  show ?thesis
    unfolding suggest_geometry_def Let_def h
    by (simp add: bind_def py_float_get[OF assms(2)] py_float_get[OF assms(3)] d)
qed

text \<open>
  Claim C10. Whenever \<^verbatim>\<open>suggest_geometry\<close> returns, the \<open>alignment_mode\<close> field of its
  result is the mode argument verbatim. For a mode other than \<open>upwind\<close> and
  \<open>downwind\<close> the heading is the crosswind heading, and the whole result is the
  crosswind result with \<open>alignment_mode\<close> set to the mode as given. It returns on every
  reading whose wind direction, wind shear and vorticity are absent or numbers that
  \<^verbatim>\<open>float\<close> converts.
\<close>

theorem suggest_geometry_echoes_mode:
  "(\<forall>g. suggest_geometry py sd m y b a = Inr g \<longrightarrow> alignment_mode g = m)
   \<and> (m \<noteq> ''upwind'' \<and> m \<noteq> ''downwind'' \<longrightarrow>
        heading_from_wind_dir py w m = heading_from_wind_dir py w ''crosswind''
        \<and> suggest_geometry py sd m y b a =
            bind (suggest_geometry py sd ''crosswind'' y b a)
              (\<lambda>g. Inr (g\<lparr>alignment_mode := m\<rparr>)))
   \<and> (float_or_absent sd ''wind_direction'' \<and> float_or_absent sd ''wind_shear''
        \<and> float_or_absent sd ''vorticity'' \<longrightarrow> (\<exists>g. suggest_geometry py sd m y b a = Inr g))"
  using suggest_geometry_alignment[of py sd m y b a] heading_unrecognized[of m py w]
    suggest_geometry_unrecognized[of m py sd y b a] suggest_geometry_returns[of sd py m y b a]
  by blast


lemma rnd_eval_large:
  fixes k :: nat
  assumes "2 ^ k \<le> \<bar>x\<bar>" "\<bar>x\<bar> < 2 * 2 ^ k" "k \<le> 52"
  shows "rnd x = Fin (of_int (round_half_even (x * 2 ^ (52 - k))) / 2 ^ (52 - k))"
proof -
  define B :: real where "B = 2 ^ 53"
  have r53: "rne B = B"
    unfolding B_def by (subst rne_eval_huge[of 53]) (simp_all add: round_half_even_def Let_def)
  have "(2::real) ^ Suc k \<le> 2 ^ 53"
    using assms(3) by (intro power_increasing) simp_all
  then have x2: "\<bar>x\<bar> \<le> B" using assms(2) by (simp add: B_def)
  have "rne x \<le> rne B" using x2 by (intro rne_mono) linarith
  moreover have "rne (- B) \<le> rne x" using x2 by (intro rne_mono) linarith
  ultimately have "\<bar>rne x\<bar> \<le> B" by (simp add: r53 rne_neg)
  moreover have "B < huge" by (simp add: huge_def B_def)
  ultimately have "\<bar>rne x\<bar> < huge" by linarith
  then have "rnd x = Fin (rne x)" by (rule rnd_Fin)
  then show ?thesis by (simp only: rne_eval_large[OF assms])
qed

text \<open>
  A reading with wind direction, shear and vorticity, and one with a small shear; the
  floats 0.05, 10.05 and 10.1.
\<close>

definition reading_wind :: pydict where
  "reading_wind = [''wind_direction'' \<mapsto> VNum 200, ''wind_shear'' \<mapsto> VNum 20,
                   ''vorticity'' \<mapsto> VNum 0.001]"

definition reading_shear :: pydict where
  "reading_shear = [''wind_shear'' \<mapsto> VNum (1 / 4)]"

definition d005 :: real where "d005 = 3602879701896397 / 2 ^ 56"
definition d1005 :: real where "d1005 = 2828823515942093 / 2 ^ 48"
definition d101 :: real where "d101 = 5685794529555251 / 2 ^ 49"

lemma float_of_num_examples:
  "float_of_num 200 = Inr (Fin 200)" "float_of_num 20 = Inr (Fin 20)"
  "float_of_num (1 / 1000) = Inr (Fin d001)" "float_of_num (1 / 4) = Inr (Fin (1 / 4))"
proof -
  show "float_of_num 200 = Inr (Fin 200)" by (simp add: float_of_num_def rnd_ints)
  show "float_of_num 20 = Inr (Fin 20)"
    using rnd_of_int[of 20] by (simp add: float_of_num_def)
  have "rnd (1 / 1000) = Fin d001"
    unfolding d001_def by (subst rnd_eval_small[of 10]) (simp_all add: round_half_even_def Let_def)
  then show "float_of_num (1 / 1000) = Inr (Fin d001)" by (simp add: float_of_num_def)
  have "rnd (1 / 4) = Fin (1 / 4)"
    by (subst rnd_eval_small[of 2]) (simp_all add: round_half_even_def Let_def)
  then show "float_of_num (1 / 4) = Inr (Fin (1 / 4))" by (simp add: float_of_num_def)
qed

lemma heading_example:
  "heading_from_wind_dir demo_py (VNum 200) ''diagonal'' = Inr (Fin 290)"
proof -
  have a: "fadd (Fin 200) (Fin 360) = Fin 560" by (simp add: rnd_ints)
  have b: "fmod (Fin 560) (Fin 360) = Fin 200" by (simp add: toward_zero_def Let_def)
  have c: "fadd (Fin 200) (Fin 90) = Fin 290" by (simp add: rnd_ints)
  have d: "fmod (Fin 290) (Fin 360) = Fin 290" by (simp add: toward_zero_def Let_def)
  show ?thesis
    by (simp add: heading_from_wind_dir_def float_of_num_examples bind_def lit_ints py_mod_Fin
        rnd_ints b d del: fmod.simps)
qed

lemma round1_examples:
  "py_round (Fin 290) 1 = Fin 290" "py_round (Fin 14) 1 = Fin 14"
  "py_round (Fin (11 / 2)) 1 = Fin (11 / 2)" "py_round (Fin 2) 1 = Fin 2"
  "py_round (Fin 5) 1 = Fin 5" "py_round (Fin d1005) 1 = Fin d101"
proof -
  have h: "rnd (11 / 2) = Fin (11 / 2)"
    by (subst rnd_eval_large[of 2]) (simp_all add: round_half_even_def Let_def)
  show "py_round (Fin 290) 1 = Fin 290" "py_round (Fin 14) 1 = Fin 14"
    "py_round (Fin 2) 1 = Fin 2" "py_round (Fin 5) 1 = Fin 5"
    by (simp_all add: round_half_even_def rnd_ints)
  have "round_half_even (11 / 2 * 10 ^ 1) = 55" by (simp add: round_half_even_def)
  then show "py_round (Fin (11 / 2)) 1 = Fin (11 / 2)" using h by simp
  have "round_half_even (d1005 * 10 ^ 1) = 101"
    by (simp add: d1005_def round_half_even_def Let_def)
  moreover have "rnd (101 / 10 ^ 1) = Fin d101"
    unfolding d101_def by (subst rnd_eval_large[of 3]) (simp_all add: round_half_even_def Let_def)
  ultimately show "py_round (Fin d1005) 1 = Fin d101" by simp
qed

lemma suggest_geometry_example:
  "suggest_geometry demo_py reading_wind ''diagonal'' (Fin 10) (Fin 5) (Fin 2) =
     Inr \<lparr>desired_heading_deg = Some (Fin 290), formation_yaw_offset_deg = Fin 14,
          bank_deg = Fin (11 / 2), angle_of_attack_deg = Fin 2,
          alignment_mode = ''diagonal''\<rparr>"
proof -
  have w: "py_get reading_wind ''wind_direction'' VNone = VNum 200"
    "py_float demo_py (py_get reading_wind ''wind_shear'' (VNum 0.0)) = Inr (Fin 20)"
    "py_float demo_py (py_get reading_wind ''vorticity'' (VNum 0.0)) = Inr (Fin d001)"
    by (simp_all add: reading_wind_def py_get_def float_of_num_examples)
  have q: "py_truediv (Fin 20) (lit 5.0) = Inr (Fin 4)"
    by (simp add: py_truediv_def lit_ints rnd_ints)
  have yaw: "fadd (Fin 10) (py_min (Fin 4) (lit 10.0)) = Fin 14"
    by (simp add: lit_ints py_min_def rnd_ints)
  have "rnd (d001 * 500) = Fin (1 / 2)"
    unfolding d001_def by (subst rnd_eval_small[of 1]) (simp_all add: round_half_even_def Let_def)
  then have v: "fmul (Fin d001) (lit 500.0) = Fin (1 / 2)"
    by (simp add: lit_ints)
  have "rnd (5 + 1 / 2) = Fin (11 / 2)"
    by (subst rnd_eval_large[of 2]) (simp_all add: round_half_even_def Let_def)
  then have bank: "fadd (Fin 5) (py_min (Fin (1 / 2)) (lit 3.0)) = Fin (11 / 2)"
    by (simp add: lit_ints py_min_def)
  show ?thesis
    unfolding suggest_geometry_def Let_def w
    by (simp only: heading_example q v yaw bank round1_examples bind_def sum.case
        option.case pyval.distinct if_True simp_thms)
qed

lemma suggest_geometry_shear:
  "suggest_geometry demo_py reading_shear ''upwind'' (Fin 10) (Fin 5) (Fin 2) =
     Inr \<lparr>desired_heading_deg = None, formation_yaw_offset_deg = Fin d101,
          bank_deg = Fin 5, angle_of_attack_deg = Fin 2, alignment_mode = ''upwind''\<rparr>"
proof -
  have w: "py_get reading_shear ''wind_direction'' VNone = VNone"
    "py_float demo_py (py_get reading_shear ''wind_shear'' (VNum 0.0)) = Inr (Fin (1 / 4))"
    "py_float demo_py (py_get reading_shear ''vorticity'' (VNum 0.0)) = Inr (Fin 0)"
    by (simp_all add: reading_shear_def py_get_def float_of_num_examples)
  have "rnd (1 / 4 / 5) = Fin d005"
    unfolding d005_def by (subst rnd_eval_small[of 5]) (simp_all add: round_half_even_def Let_def)
  then have q: "py_truediv (Fin (1 / 4)) (lit 5.0) = Inr (Fin d005)"
    by (simp add: py_truediv_def lit_ints)
  have "rnd (10 + d005) = Fin d1005"
    unfolding d005_def d1005_def
    by (subst rnd_eval_large[of 3]) (simp_all add: round_half_even_def Let_def)
  moreover have "\<not> 10 < d005" by (simp add: d005_def)
  ultimately have yaw: "fadd (Fin 10) (py_min (Fin d005) (lit 10.0)) = Fin d1005"
    by (simp add: lit_ints py_min_def)
  have v: "fmul (Fin 0) (lit 500.0) = Fin 0" by (simp add: lit_ints)
  have bank: "fadd (Fin 5) (py_min (Fin 0) (lit 3.0)) = Fin 5"
    by (simp add: lit_ints py_min_def rnd_ints)
  show ?thesis
    unfolding suggest_geometry_def Let_def w
    by (simp only: q v yaw bank round1_examples bind_def sum.case
        option.case if_False simp_thms)
qed

lemma lit_101: "lit 10.1 = Fin d101"
  unfolding lit_def d101_def
  by (subst rnd_eval_large[of 3]) (simp_all add: round_half_even_def Let_def)


lemma float_or_absent_wind:
  "float_or_absent reading_wind ''wind_direction''" "float_or_absent reading_wind ''wind_shear''"
  "float_or_absent reading_wind ''vorticity''"
proof -
  have "rne (1 / 1000) = d001"
    unfolding d001_def by (subst rne_eval_small[of 10]) (simp_all add: round_half_even_def Let_def)
  moreover have "\<bar>d001\<bar> < huge" by (simp add: d001_def huge_def)
  moreover have "\<bar>200 :: real\<bar> < huge" "\<bar>20 :: real\<bar> < huge" by (simp_all add: huge_def)
  ultimately show "float_or_absent reading_wind ''wind_direction''"
    "float_or_absent reading_wind ''wind_shear''" "float_or_absent reading_wind ''vorticity''"
    using rne_of_int[of 200] rne_of_int[of 20]
    by (simp_all add: float_or_absent_def reading_wind_def)
qed

theorem suggest_geometry_echoes_mode_witness:
  "''diagonal'' \<noteq> ''upwind'' \<and> ''diagonal'' \<noteq> ''downwind''
   \<and> float_or_absent reading_wind ''wind_direction''
   \<and> float_or_absent reading_wind ''wind_shear''
   \<and> float_or_absent reading_wind ''vorticity''
   \<and> (\<exists>g. suggest_geometry demo_py reading_wind ''diagonal'' (Fin 10) (Fin 5) (Fin 2) = Inr g
          \<and> alignment_mode g = ''diagonal''
          \<and> desired_heading_deg g = Some (Fin 290))
   \<and> heading_from_wind_dir demo_py (VNum 200) ''diagonal''
        = heading_from_wind_dir demo_py (VNum 200) ''crosswind''
   \<and> suggest_geometry demo_py reading_wind ''diagonal'' (Fin 10) (Fin 5) (Fin 2) =
        bind (suggest_geometry demo_py reading_wind ''crosswind'' (Fin 10) (Fin 5) (Fin 2))
          (\<lambda>g. Inr (g\<lparr>alignment_mode := ''diagonal''\<rparr>))"
proof -
  have m: "''diagonal'' \<noteq> ''upwind'' \<and> ''diagonal'' \<noteq> ''downwind''" by simp
  have n: "float_or_absent reading_wind ''wind_direction''
     \<and> float_or_absent reading_wind ''wind_shear'' \<and> float_or_absent reading_wind ''vorticity''"
    by (simp add: float_or_absent_wind)
  note inst = suggest_geometry_echoes_mode[of demo_py reading_wind "''diagonal''" "Fin 10" "Fin 5"
      "Fin 2" "VNum 200"]
  from inst n obtain g where
    g: "suggest_geometry demo_py reading_wind ''diagonal'' (Fin 10) (Fin 5) (Fin 2) = Inr g"
    by blast
  with inst have a: "alignment_mode g = ''diagonal''" by blast
  from g have h: "desired_heading_deg g = Some (Fin 290)"
    by (auto simp: suggest_geometry_example)
  from inst m have e: "heading_from_wind_dir demo_py (VNum 200) ''diagonal''
        = heading_from_wind_dir demo_py (VNum 200) ''crosswind''
      \<and> suggest_geometry demo_py reading_wind ''diagonal'' (Fin 10) (Fin 5) (Fin 2) =
        bind (suggest_geometry demo_py reading_wind ''crosswind'' (Fin 10) (Fin 5) (Fin 2))
          (\<lambda>g. Inr (g\<lparr>alignment_mode := ''diagonal''\<rparr>))"
    by blast
  from m n g a h e show ?thesis by blast
qed

section \<open>Console output\<close>

text \<open>
  \<^verbatim>\<open>print\<close> is modelled by returning the printed lines, in order, beside the result.
  \<open>str_nat\<close> is \<^verbatim>\<open>str(n)\<close> for a non-negative integer, as an f-string renders it.
\<close>

definition digit_char :: "nat \<Rightarrow> char" where
  "digit_char n = ''0123456789'' ! n"

fun str_nat :: "nat \<Rightarrow> string" where
  "str_nat n = (if n < 10 then [digit_char n] else str_nat (n div 10) @ [digit_char (n mod 10)])"

declare str_nat.simps [simp del]

section \<open>Swarm controller\<close>

text \<open>
  A cluster is the dictionary that \<^verbatim>\<open>form_cluster\<close> builds, with its five fixed keys
  (\<open>cluster_id\<close> is the key \<^verbatim>\<open>'id'\<close>); its members are drone dictionaries.
\<close>

record formation_block =
  yaw_offset_deg :: real
  axis :: string

record cluster =
  cluster_id :: string
  members :: "pydict list"
  mode :: string
  status :: string
  formation :: formation_block

definition form_cluster :: "string \<Rightarrow> pydict list \<Rightarrow> cluster \<times> string list" where
  "form_cluster cid drone_list =
     (\<lparr>cluster_id = cid,
       members = drone_list,
       mode = (if 4 \<le> length drone_list then ''mesh'' else ''scan''),
       status = ''active'',
       formation = \<lparr>yaw_offset_deg = 0.0, axis = ''crosswind''\<rparr>\<rparr>,
      [''[INFO] Cluster '' @ cid @ '' formed with '' @ str_nat (length drone_list)
         @ '' simulated drones.''])"

text \<open>The test \<^verbatim>\<open>d.get('status', 'ok') != 'failed'\<close> of the comprehension.\<close>

definition not_failed :: "pydict \<Rightarrow> bool" where
  "not_failed d = (py_get d ''status'' (VStr ''ok'') \<noteq> VStr ''failed'')"

text \<open>
  \<^verbatim>\<open>reassign_after_failure\<close> updates the cluster in place and returns it; the model
  returns the updated cluster and the lines printed.
\<close>

definition reassign_after_failure :: "cluster \<Rightarrow> cluster \<times> string list" where
  "reassign_after_failure c =
     (let survivors = filter not_failed (members c);
          out = (if length survivors \<noteq> length (members c)
                 then [''[WARN] Cluster '' @ cluster_id c @ '' lost ''
                         @ str_nat (length (members c) - length survivors) @ '' member(s).'']
                 else [])
      in (c\<lparr>members := survivors,
            mode := (if 4 \<le> length survivors then ''mesh'' else ''scan'')\<rparr>, out))"

text \<open>
  \<^verbatim>\<open>sorted(xs, key=k)\<close> on keys that are Python values. Numbers compare with numbers
  and strings with strings; any other comparison raises TypeError, and a list of at most
  one element is returned without a comparison. The sort is stable.
\<close>

fun is_num :: "pyval \<Rightarrow> bool" where
  "is_num (VNum x) = True"
| "is_num v = False"

fun num_of :: "pyval \<Rightarrow> real" where
  "num_of (VNum x) = x"
| "num_of v = 0"

fun is_str :: "pyval \<Rightarrow> bool" where
  "is_str (VStr s) = True"
| "is_str v = False"

fun str_of :: "pyval \<Rightarrow> string" where
  "str_of (VStr s) = s"
| "str_of v = []"

definition py_sorted :: "('a \<Rightarrow> pyval) \<Rightarrow> 'a list \<Rightarrow> error + 'a list" where
  "py_sorted k xs =
     (if length xs \<le> 1 then Inr xs
      else if list_all (\<lambda>x. is_num (k x)) xs then Inr (sort_key (\<lambda>x. num_of (k x)) xs)
      else if list_all (\<lambda>x. is_str (k x)) xs then Inr (sort_key (\<lambda>x. str_of (k x)) xs)
      else Inl TypeError)"

definition recommend_rotation_schedule :: "pydict list \<Rightarrow> error + pydict list" where
  "recommend_rotation_schedule drones = py_sorted (\<lambda>d. py_get d ''battery'' (VNum 100)) drones"

text \<open>The derived mode of a cluster: a pure function of the member count.\<close>

definition mode_of_count :: "nat \<Rightarrow> string" where
  "mode_of_count n = (if 4 \<le> n then ''mesh'' else ''scan'')"

definition mode_invariant :: "cluster \<Rightarrow> bool" where
  "mode_invariant c = (mode c = mode_of_count (length (members c)))"

text \<open>The key \<^verbatim>\<open>d.get('battery', 100)\<close> of a unit whose battery is a number or absent.\<close>

definition battery_or_100 :: "pydict \<Rightarrow> real" where
  "battery_or_100 d = (case d ''battery'' of Some (VNum b) \<Rightarrow> b | _ \<Rightarrow> 100)"

definition drone :: "string \<Rightarrow> real \<Rightarrow> pydict" where
  "drone i b = [''id'' \<mapsto> VStr i, ''battery'' \<mapsto> VNum b]"

definition mark_failed :: "pydict \<Rightarrow> pydict" where
  "mark_failed d = d(''status'' \<mapsto> VStr ''failed'')"

subsection \<open>Properties of the cluster lifecycle\<close>

lemma not_failed_iff: "not_failed d \<longleftrightarrow> d ''status'' \<noteq> Some (VStr ''failed'')"
  by (simp add: not_failed_def py_get_def split: option.splits)

lemma members_form_cluster: "members (fst (form_cluster cid ds)) = ds"
  by (simp add: form_cluster_def)

lemma members_reassign:
  "members (fst (reassign_after_failure c)) = filter not_failed (members c)"
  by (simp add: reassign_after_failure_def Let_def)

lemma lost_count:
  "length xs - length (filter not_failed xs)
     = length (filter (\<lambda>d. d ''status'' = Some (VStr ''failed'')) xs)"
proof -
  have "length (filter not_failed xs) + length (filter (\<lambda>d. \<not> not_failed d) xs) = length xs"
    by (rule sum_length_filter_compl)
  moreover have "filter (\<lambda>d. \<not> not_failed d) xs = filter (\<lambda>d. d ''status'' = Some (VStr ''failed'')) xs"
    by (simp add: not_failed_iff)
  ultimately show ?thesis by simp
qed

text \<open>
  Claim C3. The cluster built by \<^verbatim>\<open>form_cluster\<close> and the cluster returned by
  \<^verbatim>\<open>reassign_after_failure\<close>, whatever cluster it is given, have mode \<open>mesh\<close> when the
  member list has at least 4 entries and mode \<open>scan\<close> otherwise.
\<close>

theorem cluster_mode_invariant:
  "mode_invariant (fst (form_cluster cid ds))
   \<and> members (fst (form_cluster cid ds)) = ds
   \<and> mode_invariant (fst (reassign_after_failure c))
   \<and> (mode (fst (reassign_after_failure c)) = ''mesh''
        \<longleftrightarrow> 4 \<le> length (members (fst (reassign_after_failure c))))
   \<and> (mode (fst (form_cluster cid ds)) = ''mesh'' \<longleftrightarrow> 4 \<le> length ds)"
  by (simp add: mode_invariant_def mode_of_count_def form_cluster_def
      reassign_after_failure_def Let_def)

text \<open>
  Claim C4, amended. \<^verbatim>\<open>reassign_after_failure\<close> keeps, in their order, exactly the
  members whose \<open>status\<close> is not the string \<open>failed\<close> (a member without a status is
  kept) and leaves the other fields but the mode alone. When at least one member was
  removed it prints one line reporting how many; when none was removed it prints
  nothing.
\<close>

theorem reassign_after_failure_removes_failed:
  "members (fst (reassign_after_failure c))
     = filter (\<lambda>d. d ''status'' \<noteq> Some (VStr ''failed'')) (members c)
   \<and> cluster_id (fst (reassign_after_failure c)) = cluster_id c
   \<and> status (fst (reassign_after_failure c)) = status c
   \<and> formation (fst (reassign_after_failure c)) = formation c
   \<and> snd (reassign_after_failure c)
       = (let k = length (filter (\<lambda>d. d ''status'' = Some (VStr ''failed'')) (members c))
          in if k = 0 then []
             else [''[WARN] Cluster '' @ cluster_id c @ '' lost '' @ str_nat k @ '' member(s).''])"
proof -
  let ?failed = "filter (\<lambda>d. d ''status'' = Some (VStr ''failed'')) (members c)"
  have keep: "filter not_failed (members c)
     = filter (\<lambda>d. d ''status'' \<noteq> Some (VStr ''failed'')) (members c)"
    by (rule filter_cong) (simp_all add: not_failed_iff)
  have cnt: "length (members c) - length (filter not_failed (members c)) = length ?failed"
    by (rule lost_count)
  have le: "length (filter not_failed (members c)) \<le> length (members c)"
    by (rule length_filter_le)
  have neq: "length (filter not_failed (members c)) \<noteq> length (members c) \<longleftrightarrow> length ?failed \<noteq> 0"
    using cnt le by linarith
  have out: "snd (reassign_after_failure c)
       = (if length ?failed = 0 then []
          else [''[WARN] Cluster '' @ cluster_id c @ '' lost '' @ str_nat (length ?failed) @ '' member(s).''])"
    using neq cnt by (simp add: reassign_after_failure_def Let_def)
  have mem: "members (fst (reassign_after_failure c))
     = filter (\<lambda>d. d ''status'' \<noteq> Some (VStr ''failed'')) (members c)"
    by (simp only: members_reassign keep)
  have frame: "cluster_id (fst (reassign_after_failure c)) = cluster_id c"
    "status (fst (reassign_after_failure c)) = status c"
    "formation (fst (reassign_after_failure c)) = formation c"
    by (simp_all add: reassign_after_failure_def Let_def)
  from out have out': "snd (reassign_after_failure c)
       = (let k = length ?failed
          in if k = 0 then []
             else [''[WARN] Cluster '' @ cluster_id c @ '' lost '' @ str_nat k @ '' member(s).''])"
    by (simp only: Let_def)
  from mem frame out' show ?thesis by blast
qed

text \<open>
  The scenario of the module: four units form a mesh cluster; the second is marked
  failed; reassignment leaves three survivors in scan mode and prints one warning.
\<close>

definition demo_cluster :: cluster where
  "demo_cluster =
     (fst (form_cluster ''Z9'' [drone ''D1'' 65, drone ''D2'' 40, drone ''D3'' 85, drone ''D4'' 55]))
       \<lparr>members := [drone ''D1'' 65, mark_failed (drone ''D2'' 40), drone ''D3'' 85, drone ''D4'' 55]\<rparr>"

lemma demo_status:
  "drone i b ''status'' = None" "mark_failed d ''status'' = Some (VStr ''failed'')"
  by (simp_all add: drone_def mark_failed_def)

theorem reassign_after_failure_removes_failed_witness:
  "members (fst (reassign_after_failure demo_cluster))
     = [drone ''D1'' 65, drone ''D3'' 85, drone ''D4'' 55]
   \<and> snd (reassign_after_failure demo_cluster) = [''[WARN] Cluster Z9 lost 1 member(s).'']"
proof -
  have m: "members demo_cluster = [drone ''D1'' 65, mark_failed (drone ''D2'' 40), drone ''D3'' 85, drone ''D4'' 55]"
    and i: "cluster_id demo_cluster = ''Z9''"
    by (simp_all add: demo_cluster_def form_cluster_def)
  show ?thesis
    using reassign_after_failure_removes_failed[of demo_cluster]
    by (simp add: m i demo_status Let_def str_nat.simps digit_char_def)
qed

text \<open>
  When no member has failed, nothing is removed and no line is printed at all: there
  is no event that reports zero removals.
\<close>

theorem reassign_after_failure_silent_counterexample:
  "members (fst (reassign_after_failure (fst (form_cluster ''Z9'' [drone ''D1'' 65, drone ''D2'' 40]))))
     = [drone ''D1'' 65, drone ''D2'' 40]
   \<and> snd (reassign_after_failure (fst (form_cluster ''Z9'' [drone ''D1'' 65, drone ''D2'' 40]))) = []"
  by (simp add: reassign_after_failure_def form_cluster_def Let_def not_failed_iff demo_status)

subsection \<open>Properties of the rotation schedule\<close>

lemma sort_key_short: "length xs \<le> 1 \<Longrightarrow> sort_key f xs = xs"
  by (cases xs) (auto)

lemma insort_key_agree:
  "f x = g x \<Longrightarrow> (\<forall>y\<in>set ys. f y = g y) \<Longrightarrow> insort_key f x ys = insort_key g x ys"
  by (induction ys) auto

lemma sort_key_agree:
  "(\<forall>x\<in>set xs. f x = g x) \<Longrightarrow> sort_key f xs = sort_key g xs"
proof (induction xs)
  case Nil
  then show ?case by simp
next
  case (Cons x xs)
  then have "sort_key f xs = sort_key g xs" by simp
  moreover have "insort_key f x (sort_key g xs) = insort_key g x (sort_key g xs)"
    using Cons.prems by (intro insort_key_agree) simp_all
  ultimately show ?case by simp
qed

lemma battery_key_numeric:
  "numeric_or_absent d ''battery'' \<Longrightarrow>
     is_num (py_get d ''battery'' (VNum 100))
     \<and> num_of (py_get d ''battery'' (VNum 100)) = battery_or_100 d"
  by (auto simp: numeric_or_absent_def py_get_def battery_or_100_def
      split: option.splits pyval.splits)

lemma recommend_rotation_schedule_numeric:
  assumes "list_all (\<lambda>d. numeric_or_absent d ''battery'') drones"
  shows "recommend_rotation_schedule drones = Inr (sort_key battery_or_100 drones)"
proof -
  let ?k = "\<lambda>d. py_get d ''battery'' (VNum 100)"
  have num: "list_all (\<lambda>d. is_num (?k d)) drones"
    using assms by (simp add: list_all_iff battery_key_numeric)
  have key: "sort_key (\<lambda>d. num_of (?k d)) drones = sort_key battery_or_100 drones"
    using assms by (intro sort_key_agree) (simp add: list_all_iff battery_key_numeric)
  show ?thesis
    using num key by (simp add: recommend_rotation_schedule_def py_sorted_def sort_key_short)
qed

text \<open>
  Claim C9. For units whose battery is a number or absent,
  \<^verbatim>\<open>recommend_rotation_schedule\<close> returns the same units in ascending order of battery,
  a unit without a battery value counting as battery 100; units of equal battery keep
  their original relative order, and no unit of battery below 100 comes after a unit
  without a battery value.
\<close>

theorem recommend_rotation_schedule_stable:
  assumes "list_all (\<lambda>d. numeric_or_absent d ''battery'') drones"
  shows "\<exists>out. recommend_rotation_schedule drones = Inr out
      \<and> mset out = mset drones
      \<and> sorted (map battery_or_100 out)
      \<and> (\<forall>v. filter (\<lambda>d. battery_or_100 d = v) out = filter (\<lambda>d. battery_or_100 d = v) drones)
      \<and> (\<forall>i j. i < j \<and> j < length out \<and> (out ! i) ''battery'' = None
             \<longrightarrow> 100 \<le> battery_or_100 (out ! j))"
proof -
  let ?out = "sort_key battery_or_100 drones"
  have res: "recommend_rotation_schedule drones = Inr ?out"
    using assms by (rule recommend_rotation_schedule_numeric)
  have perm: "mset ?out = mset drones" by simp
  have srt: "sorted (map battery_or_100 ?out)" by simp
  have stab: "filter (\<lambda>d. battery_or_100 d = v) ?out = filter (\<lambda>d. battery_or_100 d = v) drones" for v
    by (rule sort_key_stable)
  have last: "100 \<le> battery_or_100 (?out ! j)"
    if "i < j" "j < length ?out" "(?out ! i) ''battery'' = None" for i j
  proof -
    have "map battery_or_100 ?out ! i \<le> map battery_or_100 ?out ! j"
      using srt that(1,2) by (intro sorted_nth_mono) simp_all
    moreover have "battery_or_100 (?out ! i) = 100"
      using that(3) by (simp add: battery_or_100_def)
    ultimately show ?thesis using that(1,2) by simp
  qed
  from res perm srt stab last show ?thesis by blast
qed

definition fleet :: "pydict list" where
  "fleet = [drone ''D1'' 65, drone ''D2'' 40, [''id'' \<mapsto> VStr ''D6''], drone ''D3'' 85,
            drone ''D4'' 40, drone ''D5'' 30]"

lemma battery_examples:
  "battery_or_100 (drone i b) = b" "battery_or_100 [''id'' \<mapsto> VStr ''D6''] = 100"
  "numeric_or_absent (drone i b) ''battery''" "numeric_or_absent [''id'' \<mapsto> VStr ''D6''] ''battery''"
  by (simp_all add: battery_or_100_def drone_def numeric_or_absent_def)

theorem recommend_rotation_schedule_stable_witness:
  "list_all (\<lambda>d. numeric_or_absent d ''battery'') fleet
   \<and> recommend_rotation_schedule fleet
       = Inr [drone ''D5'' 30, drone ''D2'' 40, drone ''D4'' 40, drone ''D1'' 65, drone ''D3'' 85,
              [''id'' \<mapsto> VStr ''D6'']]
   \<and> (\<exists>out. recommend_rotation_schedule fleet = Inr out
         \<and> mset out = mset fleet
         \<and> sorted (map battery_or_100 out)
         \<and> filter (\<lambda>d. battery_or_100 d = 40) out = filter (\<lambda>d. battery_or_100 d = 40) fleet)"
proof -
  have h: "list_all (\<lambda>d. numeric_or_absent d ''battery'') fleet"
    by (simp add: fleet_def battery_examples)
  have ev: "recommend_rotation_schedule fleet
       = Inr [drone ''D5'' 30, drone ''D2'' 40, drone ''D4'' 40, drone ''D1'' 65, drone ''D3'' 85,
              [''id'' \<mapsto> VStr ''D6'']]"
    by (simp add: recommend_rotation_schedule_numeric[OF h]) (simp add: fleet_def battery_examples)
  from recommend_rotation_schedule_stable[OF h]
  have "\<exists>out. recommend_rotation_schedule fleet = Inr out
         \<and> mset out = mset fleet
         \<and> sorted (map battery_or_100 out)
         \<and> filter (\<lambda>d. battery_or_100 d = 40) out = filter (\<lambda>d. battery_or_100 d = 40) fleet"
    by blast
  with h ev show ?thesis by blast
qed


section \<open>AI feedback loop\<close>

subsection \<open>Builtins and library calls\<close>

text \<open>
  \<^verbatim>\<open>v.get(k)\<close> on a value: defined on a dictionary (default \<open>None\<close>), AttributeError on
  anything else.
\<close>

fun method_get :: "pyval \<Rightarrow> string \<Rightarrow> error + pyval" where
  "method_get (VDict m) k = Inr (py_get m k VNone)"
| "method_get v k = Inl AttributeError"

text \<open>
  \<^verbatim>\<open>v.lower()\<close>: defined on a string, AttributeError on anything else. Letters outside
  ASCII are left as they are.
\<close>

definition lower_char :: "char \<Rightarrow> char" where
  "lower_char c =
     (case map_of (zip ''ABCDEFGHIJKLMNOPQRSTUVWXYZ'' ''abcdefghijklmnopqrstuvwxyz'') c of
        None \<Rightarrow> c
      | Some l \<Rightarrow> l)"

fun method_lower :: "pyval \<Rightarrow> error + string" where
  "method_lower (VStr s) = Inr (map lower_char s)"
| "method_lower v = Inl AttributeError"

text \<open>
  \<^verbatim>\<open>v > c\<close> against a constant: TypeError unless \<open>v\<close> is a number. Python compares an
  \<open>int\<close> and a \<open>float\<close> by their exact values; \<open>c\<close> is the exact value of the constant.
\<close>

fun py_gt :: "pyval \<Rightarrow> real \<Rightarrow> error + bool" where
  "py_gt (VNum x) c = Inr (c < x)"
| "py_gt v c = Inl TypeError"

text \<open>A function that may raise, applied along a list; the first exception wins.\<close>

fun map_result :: "('a \<Rightarrow> error + 'b) \<Rightarrow> 'a list \<Rightarrow> error + 'b list" where
  "map_result f [] = Inr []"
| "map_result f (x # xs) =
     bind (f x) (\<lambda>y. bind (map_result f xs) (\<lambda>ys. Inr (y # ys)))"

text \<open>\<^verbatim>\<open>f"{x:.2f}"\<close>\<close>

definition format_2f :: "real \<Rightarrow> string" where
  "format_2f x =
     (let n = nat (round_half_even (\<bar>x\<bar> * 100))
      in (if x < 0 then ''-'' else '''') @ str_nat (n div 100) @ ''.''
           @ [digit_char (n div 10 mod 10), digit_char (n mod 10)])"

text \<open>
  An element of a feature row before the conversion to an array: a value as the record
  holds it, or a float that \<^verbatim>\<open>_extract_angle_features\<close> has computed.
\<close>

datatype cell = Raw pyval | Flt pyfloat

text \<open>
  NumPy and scikit-learn are outside the repository. What they compute is a parameter
  of the model: the conversion of a value that is not a number to an array element, the
  (random) split, the fit of the estimator, its prediction and the accuracy. A float
  converts to itself, any other number as \<^verbatim>\<open>float\<close> converts it, and a number is
  truncated towards zero as an integer.
\<close>

record 'm library =
  np_float_other :: "pyval \<Rightarrow> error + pyfloat"
  np_int_other :: "pyval \<Rightarrow> error + int"
  train_test_split ::
    "pyfloat list list \<Rightarrow> int list \<Rightarrow>
       error + (pyfloat list list \<times> pyfloat list list \<times> int list \<times> int list)"
  fit :: "'m \<Rightarrow> pyfloat list list \<Rightarrow> int list \<Rightarrow> error + 'm"
  predict :: "'m \<Rightarrow> pyfloat list list \<Rightarrow> error + int list"
  accuracy_score :: "int list \<Rightarrow> int list \<Rightarrow> real"

fun np_float :: "'m library \<Rightarrow> cell \<Rightarrow> error + pyfloat" where
  "np_float lib (Flt f) = Inr f"
| "np_float lib (Raw (VNum x)) = float_of_num x"
| "np_float lib (Raw v) = np_float_other lib v"

definition np_int :: "'m library \<Rightarrow> pyval \<Rightarrow> error + int" where
  "np_int lib v =
     (case v of VNum x \<Rightarrow> Inr (if 0 \<le> x then \<lfloor>x\<rfloor> else \<lceil>x\<rceil>) | _ \<Rightarrow> np_int_other lib v)"

text \<open>\<^verbatim>\<open>np.array(rows, dtype=float)\<close> on a list of rows.\<close>

definition np_array_float :: "'m library \<Rightarrow> cell list list \<Rightarrow> error + pyfloat list list" where
  "np_array_float lib rows = map_result (map_result (np_float lib)) rows"

subsection \<open>Feature extraction\<close>

definition ALIGNMENT_MODES :: "string list" where
  "ALIGNMENT_MODES = [''upwind'', ''downwind'', ''crosswind'', ''none'']"

text \<open>
  \<^verbatim>\<open>_extract_angle_features\<close> (the leading underscore of a private name is dropped here
  and for \<^verbatim>\<open>_vectorize_scan\<close>). The default \<^verbatim>\<open>meta.get(...)\<close> of each lookup is
  evaluated before the lookup, so that a \<open>meta\<close> that is not a dictionary raises. The
  seven features are returned as a list, which is what both callers turn the tuple into.
\<close>

definition extract_angle_features :: "builtins \<Rightarrow> pydict \<Rightarrow> error + pyfloat list" where
  "extract_angle_features py entry =
     (let meta = py_get entry ''angle_meta'' (VDict Map.empty)
      in bind (method_get meta ''heading_deg'') (\<lambda>mh.
         let heading = py_get entry ''heading_deg'' mh
      in bind (method_get meta ''bank_deg'') (\<lambda>mb.
         let bank = py_get entry ''bank_deg'' mb
      in bind (method_get meta ''angle_of_attack_deg'') (\<lambda>ma.
         let aoa = py_get entry ''angle_of_attack_deg'' ma
      in bind (method_get meta ''formation_yaw_offset_deg'') (\<lambda>my.
         let yaw = py_get entry ''formation_yaw_offset_deg'' my
      in bind (method_get meta ''alignment_mode'') (\<lambda>mal.
         bind (method_lower (py_or (py_get entry ''alignment_mode'' mal) (VStr ''none''))) (\<lambda>align0.
         bind (if heading \<noteq> VNone
               then bind (py_float py heading) (\<lambda>h.
                    bind (py_mod h (lit 360.0)) (\<lambda>r. py_truediv r (lit 360.0)))
               else Inr (lit 0.0)) (\<lambda>heading_norm.
         bind (py_float py (py_or bank (VNum 0.0))) (\<lambda>b.
         bind (py_truediv (fabs b) (lit 30.0)) (\<lambda>bq.
         let bank_norm = py_min bq (lit 1.0)
      in bind (py_float py (py_or aoa (VNum 0.0))) (\<lambda>a.
         bind (py_truediv (fabs a) (lit 15.0)) (\<lambda>aq.
         let aoa_norm = py_min aq (lit 1.0)
      in bind (py_float py (py_or yaw (VNum 0.0))) (\<lambda>y.
         bind (py_truediv (fabs y) (lit 180.0)) (\<lambda>yq.
         let yaw_norm = py_min yq (lit 1.0);
             align = (if align0 \<in> set ALIGNMENT_MODES then align0 else ''none'');
             up = (if align = ''upwind'' then lit 1.0 else lit 0.0);
             down = (if align = ''downwind'' then lit 1.0 else lit 0.0);
             cross = (if align = ''crosswind'' then lit 1.0 else lit 0.0)
         in Inr [heading_norm, bank_norm, aoa_norm, yaw_norm, up, down, cross]))))))))))))))"

subsection \<open>The classifier\<close>

text \<open>The object state: the estimator and the flag \<open>is_trained\<close>.\<close>

record 'm ai =
  model :: 'm
  is_trained :: bool

definition init_ai :: "'m \<Rightarrow> 'm ai" where
  "init_ai fresh = \<lparr>model = fresh, is_trained = False\<rparr>"

text \<open>
  The loop of \<^verbatim>\<open>preprocess\<close>: one row \<^verbatim>\<open>base + ang\<close> and one label per entry, before
  the conversion to arrays.
\<close>

fun preprocess_loop :: "builtins \<Rightarrow> pydict list \<Rightarrow> error + (cell list list \<times> pyval list)" where
  "preprocess_loop py [] = Inr ([], [])"
| "preprocess_loop py (entry # rest) =
     (let base = [py_get entry ''CAPE'' (VNum 0.0),
                  py_get entry ''vorticity'' (VNum 0.0),
                  py_get entry ''humidity'' (VNum 0.0),
                  py_get entry ''vertical_velocity'' (VNum 0.0),
                  py_get entry ''anomaly_score'' (VNum 0.0)]
      in bind (extract_angle_features py entry) (\<lambda>ang.
         bind (preprocess_loop py rest) (\<lambda>(features, labels).
           Inr ((map Raw base @ map Flt ang) # features,
                py_get entry ''storm_formed'' (VNum 0) # labels))))"

definition preprocess ::
    "builtins \<Rightarrow> 'm library \<Rightarrow> pydict list \<Rightarrow> error + (pyfloat list list \<times> int list)" where
  "preprocess py lib dataset =
     bind (preprocess_loop py dataset) (\<lambda>(features, labels).
     bind (np_array_float lib features) (\<lambda>X.
     bind (map_result (np_int lib) labels) (\<lambda>y. Inr (X, y))))"

text \<open>
  \<^verbatim>\<open>train\<close> returns the new state and the lines printed; \<^verbatim>\<open>len(set(y))\<close> is the
  number of distinct labels. When a call raises, the exception is the whole result: the
  state it leaves behind is not reported.
\<close>

definition train ::
    "builtins \<Rightarrow> 'm library \<Rightarrow> 'm ai \<Rightarrow> pydict list \<Rightarrow> error + ('m ai \<times> string list)" where
  "train py lib self dataset =
     bind (preprocess py lib dataset) (\<lambda>(X, y).
       if length (remdups y) < 2
       then Inr (self, [''[AI] Warning: dataset lacks class diversity (simulation). Skipping train.''])
       else
         bind (train_test_split lib X y) (\<lambda>(X_train, X_val, y_train, y_val).
         bind (fit lib (model self) X_train y_train) (\<lambda>fitted.
         bind (predict lib fitted X_val) (\<lambda>pred.
           let acc = accuracy_score lib y_val pred
           in Inr (self\<lparr>model := fitted, is_trained := True\<rparr>,
                   [''[AI] Conceptual training complete. Validation Accuracy: ''
                      @ format_2f acc @ '' (illustrative only)''])))))"

definition vectorize_scan ::
    "builtins \<Rightarrow> 'm library \<Rightarrow> pydict \<Rightarrow> error + pyfloat list list" where
  "vectorize_scan py lib current_scan =
     (let base = [py_get current_scan ''CAPE'' (VNum 0.0),
                  py_get current_scan ''vorticity'' (VNum 0.0),
                  py_get current_scan ''humidity'' (VNum 0.0),
                  py_get current_scan ''vertical_velocity'' (VNum 0.0),
                  py_get current_scan ''anomaly_score'' (VNum 0.0)]
      in bind (extract_angle_features py current_scan) (\<lambda>ang.
           np_array_float lib [map Raw base @ map Flt ang]))"

definition fallback_notice :: string where
  "fallback_notice = ''[AI] Notice: Model not trained. Defaulting to rule-based fallback (conceptual).''"

text \<open>
  \<^verbatim>\<open>predict_next_focus\<close>. In the fallback, \<^verbatim>\<open>and\<close> does not evaluate the vorticity test
  when the CAPE test is false; the constant \<^verbatim>\<open>0.0005\<close> is a float, \<open>rne 0.0005\<close> by
  value.
\<close>

definition predict_next_focus ::
    "builtins \<Rightarrow> 'm library \<Rightarrow> 'm ai \<Rightarrow> pydict \<Rightarrow> error + (bool \<times> string list)" where
  "predict_next_focus py lib self current_scan =
     (if \<not> is_trained self
      then bind (py_gt (py_get current_scan ''CAPE'' (VNum 0)) 1500) (\<lambda>c.
             if \<not> c then Inr (False, [fallback_notice])
             else bind (py_gt (py_get current_scan ''vorticity'' (VNum 0)) (rne 0.0005)) (\<lambda>v.
                    Inr (v, [fallback_notice])))
      else bind (vectorize_scan py lib current_scan) (\<lambda>features.
           bind (predict lib (model self) features) (\<lambda>preds.
             case preds of
               [] \<Rightarrow> Inl IndexError
             | prediction # _ \<Rightarrow> Inr (prediction \<noteq> 0, []))))"

definition retrain_on_outcome ::
    "builtins \<Rightarrow> 'm library \<Rightarrow> 'm ai \<Rightarrow> pydict list \<Rightarrow> bool \<Rightarrow> error + ('m ai \<times> string list)" where
  "retrain_on_outcome py lib self original_dataset success =
     (if \<not> success
      then bind (train py lib self original_dataset) (\<lambda>(self', out).
             Inr (self', ''[AI] Outcome mismatch (simulation): reinforcing edge-case patterns.'' # out))
      else Inr (self, [''[AI] Outcome match (simulation): maintaining current model state.'']))"

subsection \<open>Properties of the feature extraction\<close>

lemma map_result_Inr:
  "map_result f xs = Inr ys \<Longrightarrow>
     length ys = length xs \<and> (\<forall>i<length xs. f (xs ! i) = Inr (ys ! i))"
proof (induction xs arbitrary: ys)
  case Nil
  then show ?case by simp
next
  case (Cons x xs)
  from Cons.prems obtain y ys' where
    y: "f x = Inr y" and ys': "map_result f xs = Inr ys'" and eq: "ys = y # ys'"
    by (auto simp: bind_def split: sum.splits)
  from Cons.IH[OF ys'] have
    len: "length ys' = length xs" and nth: "\<forall>i<length xs. f (xs ! i) = Inr (ys' ! i)"
    by simp_all
  show ?case
    using y len nth by (auto simp: eq nth_Cons split: nat.splits)
qed

lemma map_result_append:
  "map_result f (xs @ zs) =
     bind (map_result f xs) (\<lambda>a. bind (map_result f zs) (\<lambda>b. Inr (a @ b)))"
  by (induction xs) (auto simp: bind_def split: sum.splits)

lemma map_result_Flt: "map_result (np_float lib) (map Flt xs) = Inr xs"
  by (induction xs) (simp_all add: bind_def)

lemma map_result_all_Inr:
  "map_result f xs = Inr ys \<longleftrightarrow> map f xs = map Inr ys"
proof (induction xs arbitrary: ys)
  case Nil
  then show ?case by auto
next
  case (Cons x xs)
  show ?case
  proof (cases ys)
    case Nil
    then show ?thesis by (auto simp: bind_def split: sum.splits)
  next
    case (Cons y ys')
    then show ?thesis using Cons.IH[of ys'] by (auto simp: bind_def split: sum.splits)
  qed
qed

lemma extract_angle_features_length:
  "extract_angle_features py e = Inr ang \<Longrightarrow> length ang = 7"
  unfolding extract_angle_features_def Let_def bind_def
  by (auto split: sum.splits if_splits)

text \<open>
  The five sensor features of a record in the stated order, each defaulting to \<open>0.0\<close>,
  and the raw row of a record: the sensor features followed by the angle features.
\<close>

definition sensor_row :: "pydict \<Rightarrow> pyval list" where
  "sensor_row e = map (\<lambda>k. py_get e k (VNum 0.0)) feature_keys"

definition raw_row :: "builtins \<Rightarrow> pydict \<Rightarrow> error + cell list" where
  "raw_row py e =
     bind (extract_angle_features py e) (\<lambda>ang. Inr (map Raw (sensor_row e) @ map Flt ang))"

definition label_of :: "pydict \<Rightarrow> pyval" where
  "label_of e = py_get e ''storm_formed'' (VNum 0)"

lemma preprocess_loop_rows:
  "preprocess_loop py ds =
     bind (map_result (raw_row py) ds) (\<lambda>features. Inr (features, map label_of ds))"
  by (induction ds)
    (auto simp: bind_def raw_row_def sensor_row_def feature_keys_def label_of_def Let_def
      split: sum.splits)

lemma vectorize_scan_rows:
  "vectorize_scan py lib e =
     bind (raw_row py e) (\<lambda>r. bind (map_result (np_float lib) r) (\<lambda>c. Inr [c]))"
  by (auto simp: vectorize_scan_def np_array_float_def bind_def raw_row_def sensor_row_def
      feature_keys_def Let_def split: sum.splits)

lemma raw_row_convert:
  assumes "raw_row py e = Inr r" and "map_result (np_float lib) r = Inr c"
  shows "length c = 12
     \<and> map (\<lambda>k. np_float lib (Raw (py_get e k (VNum 0.0)))) feature_keys = map Inr (take 5 c)
     \<and> extract_angle_features py e = Inr (drop 5 c)"
proof -
  from assms(1) obtain ang where
    ang: "extract_angle_features py e = Inr ang"
    and r: "r = map Raw (sensor_row e) @ map Flt ang"
    by (auto simp: raw_row_def bind_def split: sum.splits)
  have la: "length ang = 7" using ang by (rule extract_angle_features_length)
  from assms(2) obtain b where
    b: "map_result (np_float lib) (map Raw (sensor_row e)) = Inr b" and c: "c = b @ ang"
    by (auto simp: r map_result_append map_result_Flt bind_def split: sum.splits)
  have lb: "length b = 5"
    using map_result_Inr[OF b] by (simp add: sensor_row_def feature_keys_def)
  have "map (np_float lib) (map Raw (sensor_row e)) = map Inr b"
    using b by (simp only: map_result_all_Inr)
  then have "map (\<lambda>k. np_float lib (Raw (py_get e k (VNum 0.0)))) feature_keys = map Inr b"
    by (simp add: sensor_row_def comp_def)
  then show ?thesis using la lb ang by (simp add: c)
qed

lemma py_gt_get:
  "numeric_or_absent d k \<Longrightarrow> py_gt (py_get d k (VNum 0)) c = Inr (c < feat d k)"
  by (auto simp: numeric_or_absent_def py_get_def feat_def split: option.splits pyval.splits)

lemma train_fits:
  assumes "preprocess py lib dataset = Inr (X, y)" and "2 \<le> card (set y)"
    and "train_test_split lib X y = Inr (X_train, X_val, y_train, y_val)"
    and "fit lib (model self) X_train y_train = Inr fitted"
    and "predict lib fitted X_val = Inr pred"
  shows "\<exists>out. train py lib self dataset = Inr (self\<lparr>model := fitted, is_trained := True\<rparr>, out)"
proof -
  have "\<not> length (remdups y) < 2"
    using assms(2) by (simp add: length_remdups_card_conv)
  then show ?thesis
    using assms by (simp add: train_def bind_def Let_def)
qed

subsection \<open>A concrete library and dataset\<close>

text \<open>
  A small stand-in for the library, to run the model on: the estimator is a threshold
  on the first feature, the split keeps the last fifth (rounded up) for validation.
\<close>

definition demo_lib :: "pyfloat library" where
  "demo_lib =
     \<lparr>np_float_other = (\<lambda>v. Inl TypeError),
      np_int_other = (\<lambda>v. Inl TypeError),
      train_test_split = (\<lambda>X y.
        let k = length X - (length X + 4) div 5
        in Inr (take k X, drop k X, take k y, drop k y)),
      fit = (\<lambda>m X y. Inr (Fin 2000)),
      predict = (\<lambda>m X. Inr (map (\<lambda>row. case row of [] \<Rightarrow> 0 | c # _ \<Rightarrow> if flt m c then 1 else 0) X)),
      accuracy_score = (\<lambda>y_true y_pred.
        real (length (filter (\<lambda>p. fst p = snd p) (zip y_true y_pred))) / real (length y_true))\<rparr>"

definition entry_a :: pydict where
  "entry_a =
     [''CAPE'' \<mapsto> VNum 3000, ''vorticity'' \<mapsto> VNum 0.001, ''storm_formed'' \<mapsto> VNum 1,
      ''angle_meta'' \<mapsto> VDict [''heading_deg'' \<mapsto> VNum 90, ''bank_deg'' \<mapsto> VNum 15,
                                   ''alignment_mode'' \<mapsto> VStr ''Upwind'']]"

definition entry_b :: pydict where
  "entry_b = [''CAPE'' \<mapsto> VNum 1000, ''storm_formed'' \<mapsto> VNum 0]"

definition entry_bad :: pydict where
  "entry_bad = [''CAPE'' \<mapsto> VNum 1000, ''angle_meta'' \<mapsto> VNone]"

definition row_a :: "pyfloat list" where
  "row_a = [Fin 3000, Fin d001, Fin 0, Fin 0, Fin 0, Fin (1 / 4), Fin (1 / 2), Fin 0, Fin 0,
            Fin 1, Fin 0, Fin 0]"

definition row_b :: "pyfloat list" where
  "row_b = [Fin 1000, Fin 0, Fin 0, Fin 0, Fin 0, Fin 0, Fin 0, Fin 0, Fin 0, Fin 0, Fin 0, Fin 0]"

lemma float_of_num_ints:
  "float_of_num 15 = Inr (Fin 15)" "float_of_num 90 = Inr (Fin 90)"
  "float_of_num 1000 = Inr (Fin 1000)" "float_of_num 3000 = Inr (Fin 3000)"
  by (simp_all add: float_of_num_def rnd_ints)

lemma rnd_fractions: "rnd (1 / 4) = Fin (1 / 4)" "rnd (1 / 2) = Fin (1 / 2)"
proof -
  show "rnd (1 / 4) = Fin (1 / 4)"
    by (subst rnd_eval_small[of 2]) (simp_all add: round_half_even_def Let_def)
  show "rnd (1 / 2) = Fin (1 / 2)"
    by (subst rnd_eval_small[of 1]) (simp_all add: round_half_even_def Let_def)
qed

lemma norm_examples:
  "py_mod (Fin 90) (Fin 360) = Inr (Fin 90)"
  "py_truediv (Fin 90) (Fin 360) = Inr (Fin (1 / 4))"
  "py_truediv (Fin 15) (Fin 30) = Inr (Fin (1 / 2))"
  "py_truediv (Fin 0) (Fin 30) = Inr (Fin 0)"
  "py_truediv (Fin 0) (Fin 15) = Inr (Fin 0)"
  "py_truediv (Fin 0) (Fin 180) = Inr (Fin 0)"
  "py_min (Fin (1 / 2)) (Fin 1) = Fin (1 / 2)"
  "py_min (Fin 0) (Fin 1) = Fin 0"
  by (simp_all add: py_mod_Fin py_truediv_def py_min_def toward_zero_def rnd_fractions)

lemma extract_examples:
  "extract_angle_features py entry_a
     = Inr [Fin (1 / 4), Fin (1 / 2), Fin 0, Fin 0, Fin 1, Fin 0, Fin 0]"
  "extract_angle_features py entry_b = Inr [Fin 0, Fin 0, Fin 0, Fin 0, Fin 0, Fin 0, Fin 0]"
  "extract_angle_features py entry_bad = Inl AttributeError"
  by (simp_all add: extract_angle_features_def entry_a_def entry_b_def entry_bad_def py_get_def
      bind_def py_or_def lower_char_def ALIGNMENT_MODES_def float_of_num_ints norm_examples
      lit_simps lit_ints Let_def del: fmod.simps fdiv.simps)


lemma rnd_d001: "float_of_num (1 / 1000) = Inr (Fin d001)"
  by (rule float_of_num_examples)

lemma demo_lib_simps:
  "np_float demo_lib (Raw (VNum 3000)) = Inr (Fin 3000)"
  "np_float demo_lib (Raw (VNum 1000)) = Inr (Fin 1000)"
  "np_float demo_lib (Raw (VNum (1 / 1000))) = Inr (Fin d001)"
  "np_float demo_lib (Raw (VNum 0)) = Inr (Fin 0)"
  "np_float demo_lib (Flt f) = Inr f"
  "np_int demo_lib (VNum 0) = Inr 0" "np_int demo_lib (VNum 1) = Inr 1"
  by (simp_all add: np_int_def float_of_num_ints rnd_d001)

lemma preprocess_examples:
  "preprocess py demo_lib [entry_a, entry_b] = Inr ([row_a, row_b], [1, 0])"
  "preprocess py demo_lib [entry_b, entry_b] = Inr ([row_b, row_b], [0, 0])"
  "preprocess py demo_lib [entry_bad] = Inl AttributeError"
  by (simp_all add: preprocess_def np_array_float_def extract_examples bind_def
      row_a_def row_b_def)
    (simp_all add: entry_a_def entry_b_def py_get_def demo_lib_simps float_of_num_ints rnd_d001
      bind_def)

lemma format_2f_one: "format_2f 1 = ''1.00''"
  by (simp add: format_2f_def round_half_even_def str_nat.simps digit_char_def Let_def)

lemma demo_lib_fields:
  "train_test_split demo_lib X y
     = Inr (take (length X - (length X + 4) div 5) X, drop (length X - (length X + 4) div 5) X,
            take (length X - (length X + 4) div 5) y, drop (length X - (length X + 4) div 5) y)"
  "fit demo_lib m X y = Inr (Fin 2000)"
  "predict demo_lib m X
     = Inr (map (\<lambda>row. case row of [] \<Rightarrow> 0 | c # _ \<Rightarrow> if flt m c then 1 else 0) X)"
  "accuracy_score demo_lib y_true y_pred
     = real (length (filter (\<lambda>p. fst p = snd p) (zip y_true y_pred))) / real (length y_true)"
  by (simp_all add: demo_lib_def Let_def)

lemma train_bad: "train py demo_lib self [entry_bad] = Inl AttributeError"
  by (simp add: train_def preprocess_examples bind_def)

lemma train_good:
  "train py demo_lib (init_ai (Fin 0)) [entry_a, entry_b]
     = Inr (\<lparr>model = Fin 2000, is_trained = True\<rparr>,
            [''[AI] Conceptual training complete. Validation Accuracy: 1.00 (illustrative only)''])"
proof -
  have s: "train_test_split demo_lib [row_a, row_b] [1, 0] = Inr ([row_a], [row_b], [1], [0])"
    by (simp add: demo_lib_fields)
  have p: "predict demo_lib (Fin 2000) [row_b] = Inr [0]"
    by (simp add: demo_lib_fields row_b_def)
  have a: "accuracy_score demo_lib [0] [0] = 1"
    by (simp add: demo_lib_fields)
  show ?thesis
    by (simp add: train_def preprocess_examples bind_def s demo_lib_fields(2) p a format_2f_one init_ai_def)
qed

lemma vectorize_examples:
  "vectorize_scan py demo_lib entry_a = Inr [row_a]"
  by (simp add: vectorize_scan_def np_array_float_def extract_examples bind_def row_a_def)
    (simp add: entry_a_def py_get_def demo_lib_simps float_of_num_ints rnd_d001 bind_def)

subsection \<open>Training and inference build the same vector\<close>

text \<open>
  Claim C8. When \<^verbatim>\<open>preprocess\<close> succeeds on a dataset, the row it builds for a record
  is the vector that \<^verbatim>\<open>_vectorize_scan\<close> builds for that record at inference time: 12
  components, the 5 sensor features in the order CAPE, vorticity, humidity,
  vertical_velocity, anomaly_score (each defaulting to 0.0) followed by the 7 features
  of \<^verbatim>\<open>_extract_angle_features\<close>. On a single record whose label converts, the two
  functions also raise together.
\<close>

theorem vectorize_scan_matches_preprocess:
  "(\<forall>X y i. preprocess py lib dataset = Inr (X, y) \<and> i < length dataset \<longrightarrow>
       vectorize_scan py lib (dataset ! i) = Inr [X ! i]
       \<and> length (X ! i) = 12
       \<and> map (\<lambda>k. np_float lib (Raw (py_get (dataset ! i) k (VNum 0.0)))) feature_keys
           = map Inr (take 5 (X ! i))
       \<and> extract_angle_features py (dataset ! i) = Inr (drop 5 (X ! i)))
   \<and> (\<forall>l. np_int lib (label_of e) = Inr l \<longrightarrow>
         preprocess py lib [e] = bind (vectorize_scan py lib e) (\<lambda>X. Inr (X, [l])))"
proof (intro conjI allI impI)
  fix l assume "np_int lib (label_of e) = Inr l"
  then show "preprocess py lib [e] = bind (vectorize_scan py lib e) (\<lambda>X. Inr (X, [l]))"
    by (auto simp: preprocess_def preprocess_loop_rows vectorize_scan_rows np_array_float_def
        bind_def split: sum.splits)
next
  fix X y i
  assume a: "preprocess py lib dataset = Inr (X, y) \<and> i < length dataset"
  then obtain features where
    f: "map_result (raw_row py) dataset = Inr features"
    and x: "map_result (map_result (np_float lib)) features = Inr X"
    by (auto simp: preprocess_def preprocess_loop_rows np_array_float_def bind_def
        split: sum.splits)
  from a have i: "i < length dataset" by simp
  have r: "raw_row py (dataset ! i) = Inr (features ! i)"
    and lf: "length features = length dataset"
    using map_result_Inr[OF f] i by simp_all
  have c: "map_result (np_float lib) (features ! i) = Inr (X ! i)"
    using map_result_Inr[OF x] i lf by simp
  have v: "vectorize_scan py lib (dataset ! i) = Inr [X ! i]"
    by (simp add: vectorize_scan_rows r c bind_def)
  from raw_row_convert[OF r c] v
  show "vectorize_scan py lib (dataset ! i) = Inr [X ! i]"
    "length (X ! i) = 12"
    "map (\<lambda>k. np_float lib (Raw (py_get (dataset ! i) k (VNum 0.0)))) feature_keys
           = map Inr (take 5 (X ! i))"
    "extract_angle_features py (dataset ! i) = Inr (drop 5 (X ! i))"
    by simp_all
qed

theorem vectorize_scan_matches_preprocess_witness:
  "preprocess demo_py demo_lib [entry_a, entry_b] = Inr ([row_a, row_b], [1, 0])
   \<and> (0::nat) < length [entry_a, entry_b]
   \<and> vectorize_scan demo_py demo_lib ([entry_a, entry_b] ! 0) = Inr [[row_a, row_b] ! 0]
   \<and> length ([row_a, row_b] ! 0) = 12
   \<and> extract_angle_features demo_py ([entry_a, entry_b] ! 0) = Inr (drop 5 ([row_a, row_b] ! 0))
   \<and> np_int demo_lib (label_of entry_b) = Inr 0
   \<and> preprocess demo_py demo_lib [entry_b]
        = bind (vectorize_scan demo_py demo_lib entry_b) (\<lambda>X. Inr (X, [0]))"
proof -
  have p: "preprocess demo_py demo_lib [entry_a, entry_b] = Inr ([row_a, row_b], [1, 0])"
    by (rule preprocess_examples)
  have i: "(0::nat) < length [entry_a, entry_b]" by simp
  have l: "np_int demo_lib (label_of entry_b) = Inr 0"
    by (simp add: label_of_def entry_b_def py_get_def demo_lib_simps)
  note inst = vectorize_scan_matches_preprocess[of demo_py demo_lib "[entry_a, entry_b]" entry_b]
  from inst p i have
    "vectorize_scan demo_py demo_lib ([entry_a, entry_b] ! 0) = Inr [[row_a, row_b] ! 0]
     \<and> length ([row_a, row_b] ! 0) = 12
     \<and> extract_angle_features demo_py ([entry_a, entry_b] ! 0) = Inr (drop 5 ([row_a, row_b] ! 0))"
    by blast
  moreover from inst l have
    "preprocess demo_py demo_lib [entry_b]
       = bind (vectorize_scan demo_py demo_lib entry_b) (\<lambda>X. Inr (X, [0]))"
    by blast
  ultimately show ?thesis using p i l by blast
qed

subsection \<open>Properties of the classifier\<close>

text \<open>
  Claim C5. While the classifier is untrained, \<^verbatim>\<open>predict_next_focus\<close> on a scan whose
  CAPE and vorticity are numbers or absent returns the rule
  \<open>CAPE > 1500 and vorticity > 0.0005\<close> (an absent feature counting as 0, and 0.0005
  being the float of that name) and prints the notice that the fallback was used. Once
  trained, it returns the class that the model predicts on the vector of
  \<^verbatim>\<open>_vectorize_scan\<close>, and prints nothing.
\<close>

theorem predict_next_focus_paths:
  "(\<not> is_trained self \<and> numeric_or_absent scan ''CAPE'' \<and> numeric_or_absent scan ''vorticity'' \<longrightarrow>
      predict_next_focus py lib self scan
        = Inr (1500 < feat scan ''CAPE'' \<and> rne 0.0005 < feat scan ''vorticity'', [fallback_notice]))
   \<and> (\<forall>X p ps. is_trained self \<and> vectorize_scan py lib scan = Inr X
          \<and> predict lib (model self) X = Inr (p # ps) \<longrightarrow>
        predict_next_focus py lib self scan = Inr (p \<noteq> 0, []))"
  by (auto simp: predict_next_focus_def bind_def py_gt_get)

lemma rne_00005: "rne (1 / 2000) = d0005"
  unfolding d0005_def by (subst rne_eval_small[of 11]) (simp_all add: round_half_even_def Let_def)

theorem predict_next_focus_paths_witness:
  "\<not> is_trained (init_ai (Fin 0))
   \<and> numeric_or_absent entry_a ''CAPE'' \<and> numeric_or_absent entry_a ''vorticity''
   \<and> predict_next_focus demo_py demo_lib (init_ai (Fin 0)) entry_a = Inr (True, [fallback_notice])
   \<and> is_trained \<lparr>model = Fin 2000, is_trained = True\<rparr>
   \<and> vectorize_scan demo_py demo_lib entry_a = Inr [row_a]
   \<and> predict demo_lib (model \<lparr>model = Fin 2000, is_trained = True\<rparr>) [row_a] = Inr [1]
   \<and> predict_next_focus demo_py demo_lib \<lparr>model = Fin 2000, is_trained = True\<rparr> entry_a
        = Inr (True, [])"
proof -
  have u: "\<not> is_trained (init_ai (Fin 0))" by (simp add: init_ai_def)
  have n: "numeric_or_absent entry_a ''CAPE'' \<and> numeric_or_absent entry_a ''vorticity''"
    by (simp add: numeric_or_absent_def entry_a_def)
  have f: "(1500 < feat entry_a ''CAPE'' \<and> rne 0.0005 < feat entry_a ''vorticity'') = True"
    by (simp add: feat_def entry_a_def rne_00005 d0005_def)
  have t: "is_trained \<lparr>model = Fin 2000, is_trained = True\<rparr>" by simp
  have v: "vectorize_scan demo_py demo_lib entry_a = Inr [row_a]" by (rule vectorize_examples)
  have p: "predict demo_lib (model \<lparr>model = Fin 2000, is_trained = True\<rparr>) [row_a] = Inr [1]"
    by (simp add: demo_lib_fields row_a_def)
  from predict_next_focus_paths[of "init_ai (Fin 0)" entry_a demo_py demo_lib] u n
  have a: "predict_next_focus demo_py demo_lib (init_ai (Fin 0)) entry_a
      = Inr (1500 < feat entry_a ''CAPE'' \<and> rne 0.0005 < feat entry_a ''vorticity'',
             [fallback_notice])"
    by blast
  from predict_next_focus_paths[of "\<lparr>model = Fin 2000, is_trained = True\<rparr>" entry_a demo_py
      demo_lib] t v p
  have b: "predict_next_focus demo_py demo_lib \<lparr>model = Fin 2000, is_trained = True\<rparr> entry_a
      = Inr (1 \<noteq> (0::int), [])"
    by blast
  from a f have a': "predict_next_focus demo_py demo_lib (init_ai (Fin 0)) entry_a
      = Inr (True, [fallback_notice])"
    by simp
  from b have b': "predict_next_focus demo_py demo_lib \<lparr>model = Fin 2000, is_trained = True\<rparr> entry_a
      = Inr (True, [])"
    by simp
  from u n a' t v p b' show ?thesis by blast
qed

text \<open>
  Claim C6. \<^verbatim>\<open>retrain_on_outcome\<close> with \<open>success = True\<close> returns the classifier state
  it was given, flag and model, and only prints a line. With \<open>success = False\<close> it runs
  \<^verbatim>\<open>train\<close> on the dataset: it raises what \<^verbatim>\<open>train\<close> raises and otherwise ends in the
  state \<^verbatim>\<open>train\<close> ends in, after one more printed line.
\<close>

theorem retrain_on_outcome_frame:
  "retrain_on_outcome py lib self dataset True
     = Inr (self, [''[AI] Outcome match (simulation): maintaining current model state.''])
   \<and> (\<forall>e. train py lib self dataset = Inl e \<longrightarrow>
         retrain_on_outcome py lib self dataset False = Inl e)
   \<and> (\<forall>self' out. train py lib self dataset = Inr (self', out) \<longrightarrow>
         retrain_on_outcome py lib self dataset False
           = Inr (self', ''[AI] Outcome mismatch (simulation): reinforcing edge-case patterns.'' # out))"
  by (simp add: retrain_on_outcome_def bind_def)

theorem retrain_on_outcome_frame_witness:
  "retrain_on_outcome demo_py demo_lib (init_ai (Fin 0)) [entry_a, entry_b] True
     = Inr (init_ai (Fin 0), [''[AI] Outcome match (simulation): maintaining current model state.''])
   \<and> train demo_py demo_lib (init_ai (Fin 0)) [entry_bad] = Inl AttributeError
   \<and> retrain_on_outcome demo_py demo_lib (init_ai (Fin 0)) [entry_bad] False = Inl AttributeError
   \<and> retrain_on_outcome demo_py demo_lib (init_ai (Fin 0)) [entry_a, entry_b] False
       = Inr (\<lparr>model = Fin 2000, is_trained = True\<rparr>,
              [''[AI] Outcome mismatch (simulation): reinforcing edge-case patterns.'',
               ''[AI] Conceptual training complete. Validation Accuracy: 1.00 (illustrative only)''])"
proof -
  have e: "train demo_py demo_lib (init_ai (Fin 0)) [entry_bad] = Inl AttributeError"
    by (rule train_bad)
  from retrain_on_outcome_frame[of demo_py demo_lib "init_ai (Fin 0)" "[entry_a, entry_b]"]
  have a: "retrain_on_outcome demo_py demo_lib (init_ai (Fin 0)) [entry_a, entry_b] True
     = Inr (init_ai (Fin 0), [''[AI] Outcome match (simulation): maintaining current model state.''])"
    and c: "retrain_on_outcome demo_py demo_lib (init_ai (Fin 0)) [entry_a, entry_b] False
       = Inr (\<lparr>model = Fin 2000, is_trained = True\<rparr>,
              [''[AI] Outcome mismatch (simulation): reinforcing edge-case patterns.'',
               ''[AI] Conceptual training complete. Validation Accuracy: 1.00 (illustrative only)''])"
    using train_good[of demo_py] by blast+
  from retrain_on_outcome_frame[of demo_py demo_lib "init_ai (Fin 0)" "[entry_bad]"] e
  have b: "retrain_on_outcome demo_py demo_lib (init_ai (Fin 0)) [entry_bad] False = Inl AttributeError"
    by blast
  from a e b c show ?thesis by blast
qed

text \<open>
  Claim C7. When the labels of a dataset that \<^verbatim>\<open>preprocess\<close> accepts hold fewer than
  2 distinct values, \<^verbatim>\<open>train\<close> prints the warning and returns the classifier state
  unchanged: the flag and the model are the ones it was given.
\<close>

theorem train_skips_without_diversity:
  assumes "preprocess py lib dataset = Inr (X, y)" and "card (set y) < 2"
  shows "train py lib self dataset
     = Inr (self, [''[AI] Warning: dataset lacks class diversity (simulation). Skipping train.''])"
proof -
  have "length (remdups y) < 2"
    using assms(2) by (simp add: length_remdups_card_conv)
  then show ?thesis
    using assms(1) by (simp add: train_def bind_def)
qed

theorem train_skips_without_diversity_witness:
  "preprocess demo_py demo_lib [entry_b, entry_b] = Inr ([row_b, row_b], [0, 0])
   \<and> card (set [0::int, 0]) < 2
   \<and> train demo_py demo_lib \<lparr>model = Fin 2000, is_trained = True\<rparr> [entry_b, entry_b]
       = Inr (\<lparr>model = Fin 2000, is_trained = True\<rparr>,
              [''[AI] Warning: dataset lacks class diversity (simulation). Skipping train.''])
   \<and> train demo_py demo_lib (init_ai (Fin 0)) [entry_b, entry_b]
       = Inr (init_ai (Fin 0),
              [''[AI] Warning: dataset lacks class diversity (simulation). Skipping train.''])"
proof -
  have p: "preprocess demo_py demo_lib [entry_b, entry_b] = Inr ([row_b, row_b], [0, 0])"
    by (rule preprocess_examples)
  have c: "card (set [0::int, 0]) < 2" by simp
  from train_skips_without_diversity[OF p c, of "\<lparr>model = Fin 2000, is_trained = True\<rparr>"]
    train_skips_without_diversity[OF p c, of "init_ai (Fin 0)"] p c
  show ?thesis by blast
qed

end
